theory Spec2Isabelle
  imports Complex_Main "HOL-Library.AList" "HOL-Library.Multiset"
begin

section \<open>The comments system of the BAW Cesium viewer\<close>

text \<open>
  The development embeds the class \<open>LocalCommentsAPI\<close> (the comment store) and the
  placement part of \<open>CommentsManager\<close> of the comments module, version 2.1.0, and the
  version 2.0.0 methods where the two versions differ.

  Conventions of the embedding.
  \<^item> A JavaScript object used as a dictionary (\<open>this.data.comments\<close>) is an association
    list of its own properties in insertion order. Reading a property that is not an
    own one goes on to \<open>Object.prototype\<close> (\<open>getScene\<close> below). A key that is an array
    index, which JavaScript enumerates before the other keys, is not treated
    specially.
  \<^item> A thrown exception is the left injection of a sum; the state reached when the
    exception was thrown is returned with it, since mutations done before a \<open>throw\<close>
    stay.
  \<^item> The texts of \<open>BAWUtils.messages\<close> are not part of the sources at hand; each is a
    constructor of \<open>message\<close> carrying the name of the constant.
  \<^item> \<open>localStorage\<close> holds one item under the storage key. The item is represented by
    the value whose \<open>JSON.stringify\<close> text was written. A write throws when the flag
    \<open>quotaExceeded\<close> of the environment is set.
\<close>

subsection \<open>Errors, messages and the console\<close>

datatype message =
    ERROR_LOADING | ERROR_STORAGE | ERROR_SCENE_NOT_FOUND | ERROR_COMMENT_NOT_FOUND
  | ERROR_INVALID_JSON | ERROR_FILE_IMPORT
  | COMMENT_NO_NAME | COMMENT_NO_TEXT | COMMENT_SAVED
  | Msg string

datatype error = Error message | TypeError | SyntaxError | QuotaExceededError

datatype log = LogError message error | LogWarn message

record world =
  console :: "log list"

text \<open>
  \<^verbatim>\<open>
  safeExecute(func, errorMessage = "Operation failed", fallback = null) {
    try { return func(); }
    catch (error) { console.error(errorMessage, error); return fallback; }
  }
  \<close>
\<close>

definition safeExecute ::
  "('z world_scheme \<Rightarrow> (error + 'a) \<times> 'z world_scheme) \<Rightarrow> message \<Rightarrow> 'a
    \<Rightarrow> 'z world_scheme \<Rightarrow> 'a \<times> 'z world_scheme" where
  "safeExecute func errorMessage fallback s =
     (case func s of
        (Inr v, s') \<Rightarrow> (v, s')
      | (Inl e, s') \<Rightarrow> (fallback, s'\<lparr>console := console s' @ [LogError errorMessage e]\<rparr>))"

subsection \<open>The data model\<close>

text \<open>
  A JavaScript number is a finite value, \<open>NaN\<close> or an infinity. A finite double is
  represented by the real number it denotes, and negative zero is not told from
  zero. Where the runtime turns a decimal literal into a number (\<open>parseFloat\<close>), the
  model rounds to the nearest double (\<open>toDouble\<close> below).
\<close>

datatype jsnum = Fin real | NaN | PosInf | NegInf

datatype cartesian3 = Cartesian3 jsnum jsnum jsnum

fun c3_x :: "cartesian3 \<Rightarrow> jsnum" where "c3_x (Cartesian3 a b c) = a"
fun c3_y :: "cartesian3 \<Rightarrow> jsnum" where "c3_y (Cartesian3 a b c) = b"
fun c3_z :: "cartesian3 \<Rightarrow> jsnum" where "c3_z (Cartesian3 a b c) = c"

text \<open>
  A stored comment, with the fields \<open>saveComment\<close> and \<open>importCSV\<close> write. The
  fields \<open>id\<close> and \<open>text\<close> are \<open>id_c\<close> and \<open>text_c\<close>; \<open>featureName\<close> is a string or
  \<open>null\<close>. There is one time field, \<open>timestamp\<close>.
\<close>

record comment =
  id_c :: string
  text_c :: string
  position_x :: jsnum
  position_y :: jsnum
  position_z :: jsnum
  featureName :: "string option"
  timestamp :: string
  user :: string
  szene :: string

text \<open>
  The object \<open>{...comment, position}\<close> that \<open>loadComments\<close> and \<open>saveComment\<close> hand out:
  all fields of the stored comment and the position as a \<open>Cesium.Cartesian3\<close>.
\<close>

record mcomment =
  base :: comment
  position :: cartesian3

record document =
  comments :: "(string \<times> comment list) list"
  metadata_version :: string

text \<open>
  The fields of a \<open>LocalCommentsAPI\<close> object (\<open>data\<close>, \<open>_cache\<close>, \<open>_maxCacheSize\<close>) and
  the part of the browser it touches: the item in \<open>localStorage\<close>, the number of
  \<open>setItem\<close> calls made so far, and whether a write exceeds the quota. The type of
  \<open>data\<close> is a parameter: \<open>document\<close> for the operations on comments, a JSON value
  for the JSON import.
\<close>

record 'd api = world +
  data :: 'd
  cache :: "(string \<times> mcomment list) list"
  maxCacheSize :: nat
  localStorage :: "'d option"
  setItemCalls :: nat
  quotaExceeded :: bool

subsection \<open>Functions of the runtime on strings and numbers\<close>

text \<open>
  \<open>String.prototype.trim\<close> removes white space and line terminators from both ends.
  Of these, the characters below 256 are tab, line feed, vertical tab, form feed,
  carriage return, space and the no-break space.
\<close>

definition isWhiteSpace :: "char \<Rightarrow> bool" where
  "isWhiteSpace c = (of_char c \<in> {9, 10, 11, 12, 13, 32, 160 :: nat})"

definition trim :: "string \<Rightarrow> string" where
  "trim t = rev (dropWhile isWhiteSpace (rev (dropWhile isWhiteSpace t)))"

text \<open>
  \<open>Number.prototype.toString\<close> on a non-negative integer: its decimal numeral.
\<close>

definition digit :: "nat \<Rightarrow> char" where
  "digit n = ''0123456789'' ! n"

fun toString_nat :: "nat \<Rightarrow> string" where
  "toString_nat n =
     (if n < 10 then [digit n] else toString_nat (n div 10) @ [digit (n mod 10)])"

declare toString_nat.simps [simp del]

text \<open>
  \<open>Number.prototype.toFixed(6)\<close> after ECMAScript: a value that is not finite prints as
  its name; otherwise the sign is taken off, a magnitude of \<open>10^21\<close> or more prints as
  \<open>Number::toString\<close> prints it (the argument \<open>numToString\<close>, a function of the
  runtime), and a smaller one is rounded to the nearest multiple of \<open>10^-6\<close>, the larger
  one of two nearest, and printed with at least one digit before the point and exactly
  six after it.
\<close>

definition toFixed6 :: "(real \<Rightarrow> string) \<Rightarrow> jsnum \<Rightarrow> string" where
  "toFixed6 numToString v =
     (case v of
        NaN \<Rightarrow> ''NaN''
      | PosInf \<Rightarrow> ''Infinity''
      | NegInf \<Rightarrow> ''-Infinity''
      | Fin x0 \<Rightarrow>
          (let s = (if x0 < 0 then ''-'' else '''');
               x = \<bar>x0\<bar>
           in if x \<ge> 10 ^ 21 then s @ numToString x
              else
                (let n = nat \<lfloor>x * 10 ^ 6 + 1 / 2\<rfloor>;
                     m0 = toString_nat n;
                     m = (if length m0 \<le> 6 then replicate (7 - length m0) (CHR ''0'') @ m0
                          else m0);
                     k = length m
                 in s @ take (k - 6) m @ ''.'' @ drop (k - 6) m)))"

text \<open>
  \<open>parseFloat\<close> after ECMAScript: leading white space is skipped, the longest prefix that
  is a decimal literal (sign, \<open>Infinity\<close> or digits with an optional fraction and an
  optional exponent) is read, and \<open>NaN\<close> is returned when there is none. The value is
  the Number value for the rational the literal denotes: the nearest double, the one
  with an even significand of two nearest, and an infinity from \<open>2^1024\<close> on.
  (ECMAScript lets a runtime drop the digits after the twentieth significant one
  before rounding; the model rounds the value of all digits.)

  \<open>toDouble p q\<close> is that value for the quotient of \<open>p\<close> by \<open>q\<close> (\<open>q\<close> positive). With
  \<open>e\<close> the exponent of the quotient, \<open>2^e \<le> p / q < 2^(e + 1)\<close>, the doubles near it are
  the multiples of \<open>2^k\<close> for \<open>k = max e (-1022) - 52\<close>; the quotient is rounded to the
  nearest multiple of \<open>2^k\<close>.
\<close>

fun bitLength :: "nat \<Rightarrow> nat" where
  "bitLength n = (if n = 0 then 0 else Suc (bitLength (n div 2)))"

declare bitLength.simps [simp del]

definition pow2 :: "int \<Rightarrow> real" where
  "pow2 k = (if 0 \<le> k then 2 ^ nat k else 1 / 2 ^ nat (- k))"

definition roundTiesToEven :: "nat \<Rightarrow> nat \<Rightarrow> nat" where
  "roundTiesToEven num den =
     (let f = num div den;
          r = num mod den
      in if 2 * r < den then f
         else if den < 2 * r then f + 1
         else if even f then f else f + 1)"

definition toDouble :: "nat \<Rightarrow> nat \<Rightarrow> jsnum" where
  "toDouble p q =
     (if p = 0 then Fin 0
      else
        (let d = int (bitLength p) - int (bitLength q);
             e = (if (if 0 \<le> d then q * 2 ^ nat d \<le> p else q \<le> p * 2 ^ nat (- d))
                  then d else d - 1);
             k = max e (- 1022) - 52;
             n = (if 0 \<le> k then roundTiesToEven p (q * 2 ^ nat k)
                  else roundTiesToEven (p * 2 ^ nat (- k)) q)
         in if 2 ^ 1024 \<le> of_nat n * pow2 k then PosInf else Fin (of_nat n * pow2 k)))"

definition negate :: "jsnum \<Rightarrow> jsnum" where
  "negate v = (case v of Fin x \<Rightarrow> Fin (- x) | NaN \<Rightarrow> NaN | PosInf \<Rightarrow> NegInf | NegInf \<Rightarrow> PosInf)"

definition isDigit :: "char \<Rightarrow> bool" where
  "isDigit c = (48 \<le> (of_char c :: nat) \<and> (of_char c :: nat) \<le> 57)"

definition digitsValue :: "string \<Rightarrow> nat" where
  "digitsValue ds = foldl (\<lambda>acc c. 10 * acc + (of_char c - 48)) 0 ds"

definition exponentPart :: "string \<Rightarrow> int" where
  "exponentPart r =
     (case r of
        [] \<Rightarrow> 0
      | c # r1 \<Rightarrow>
          if c = CHR ''e'' \<or> c = CHR ''E'' then
            (let (neg, r2) =
                   (case r1 of
                      [] \<Rightarrow> (False, r1)
                    | d # r3 \<Rightarrow> if d = CHR ''-'' then (True, r3)
                               else if d = CHR ''+'' then (False, r3) else (False, r1));
                 ds = takeWhile isDigit r2
             in if ds = [] then 0
                else if neg then - int (digitsValue ds) else int (digitsValue ds))
          else 0)"

definition parseFloat :: "string \<Rightarrow> jsnum" where
  "parseFloat str =
     (let t = dropWhile isWhiteSpace str;
          (neg, u) =
            (case t of
               [] \<Rightarrow> (False, t)
             | c # r \<Rightarrow> if c = CHR ''-'' then (True, r)
                        else if c = CHR ''+'' then (False, r) else (False, t))
      in if take 8 u = ''Infinity'' then (if neg then NegInf else PosInf)
         else
           (let ip = takeWhile isDigit u;
                r1 = dropWhile isDigit u;
                (fp, r2) =
                  (case r1 of
                     [] \<Rightarrow> ([], r1)
                   | c # r \<Rightarrow> if c = CHR ''.''
                              then (takeWhile isDigit r, dropWhile isDigit r) else ([], r1))
            in if ip = [] \<and> fp = [] then NaN
               else
                 (let e = exponentPart r2 - int (length fp);
                      digits = digitsValue (ip @ fp);
                      v = (if 0 \<le> e then toDouble (digits * 10 ^ nat e) 1
                           else toDouble digits (10 ^ nat (- e)))
                  in if neg then negate v else v)))"

text \<open>\<open>Array.prototype.join\<close> on strings.\<close>

fun join :: "string \<Rightarrow> string list \<Rightarrow> string" where
  "join sep [] = []"
| "join sep [x] = x"
| "join sep (x # y # r) = x @ sep @ join sep (y # r)"

text \<open>\<open>String.prototype.split\<close> at a separator character.\<close>

fun split :: "char \<Rightarrow> string \<Rightarrow> string list" where
  "split sep [] = [Nil]"
| "split sep (c # cs) =
     (if c = sep then [] # split sep cs
      else (case split sep cs of [] \<Rightarrow> [c # Nil] | l # ls \<Rightarrow> (c # l) # ls))"

subsection \<open>LocalCommentsAPI, version 2.1.0\<close>

definition getDefaultData :: "string \<Rightarrow> document" where
  "getDefaultData STORAGE_VERSION = \<lparr>comments = [], metadata_version = STORAGE_VERSION\<rparr>"

text \<open>
  \<^verbatim>\<open>
  saveToStorage() {
    return BAWUtils.utils.safeExecute(() => {
      localStorage.setItem(this.storageKey, JSON.stringify(this.data));
      this._cache.clear(); // Clear cache on save
      return true;
    }, BAWUtils.messages.ERROR_STORAGE, false);
  }
  \<close>
\<close>

definition setItem :: "('d, 'z) api_scheme \<Rightarrow> (error + unit) \<times> ('d, 'z) api_scheme" where
  "setItem s =
     (let s1 = s\<lparr>setItemCalls := setItemCalls s + 1\<rparr>
      in if quotaExceeded s1 then (Inl QuotaExceededError, s1)
         else (Inr (), s1\<lparr>localStorage := Some (data s1)\<rparr>))"

definition saveToStorage :: "('d, 'z) api_scheme \<Rightarrow> bool \<times> ('d, 'z) api_scheme" where
  "saveToStorage =
     safeExecute (\<lambda>s.
       case setItem s of
         (Inl e, s1) \<Rightarrow> (Inl e, s1)
       | (Inr u, s1) \<Rightarrow> (Inr True, s1\<lparr>cache := []\<rparr>))
     ERROR_STORAGE False"

text \<open>
  \<open>loadComments\<close>: an empty scene name gives the empty list and a warning; a cached
  scene is served from the cache; otherwise the list is built from the document
  inside a \<open>safeExecute\<close> with the fallback \<open>[]\<close>, the oldest cache entry is dropped when
  the cache is full, and the list is cached.
  \<^verbatim>\<open>
    const comments = BAWUtils.utils.safeExecute(() => {
      return (this.data.comments[sceneName] || []).map(comment => ({
        ...comment,
        position: new Cesium.Cartesian3(comment.position_x, comment.position_y, comment.position_z)
      }));
    }, `Error loading comments for scene: ${sceneName}`, []);
  \<close>
\<close>

definition materialize :: "comment \<Rightarrow> mcomment" where
  "materialize c =
     \<lparr>base = c, position = Cartesian3 (position_x c) (position_y c) (position_z c)\<rparr>"

definition sceneComments :: "document \<Rightarrow> string \<Rightarrow> comment list" where
  "sceneComments d sceneName =
     (case map_of (comments d) sceneName of None \<Rightarrow> [] | Some cs \<Rightarrow> cs)"

text \<open>
  \<open>this.data.comments[sceneName]\<close> reads a property of a plain object: the own
  property of that name if there is one, otherwise the property of that name of
  \<open>Object.prototype\<close>, otherwise \<open>undefined\<close>. The properties of \<open>Object.prototype\<close> are
  functions, and for \<open>__proto__\<close> the value read is \<open>Object.prototype\<close> itself: each is
  truthy and none has a method \<open>map\<close>, \<open>push\<close>, \<open>find\<close> or \<open>filter\<close>, so calling one
  throws a \<open>TypeError\<close>.
\<close>

definition objectPrototypeNames :: "string list" where
  "objectPrototypeNames =
     [''constructor'', ''__defineGetter__'', ''__defineSetter__'', ''hasOwnProperty'',
      ''__lookupGetter__'', ''__lookupSetter__'', ''isPrototypeOf'', ''propertyIsEnumerable'',
      ''toString'', ''valueOf'', ''__proto__'', ''toLocaleString'']"

datatype property = Own "comment list" | Inherited | Absent

definition getScene :: "document \<Rightarrow> string \<Rightarrow> property" where
  "getScene d sceneName =
     (case map_of (comments d) sceneName of
        Some cs \<Rightarrow> Own cs
      | None \<Rightarrow> if sceneName \<in> set objectPrototypeNames then Inherited else Absent)"

definition loadComments ::
  "string \<Rightarrow> (document, 'z) api_scheme \<Rightarrow> mcomment list \<times> (document, 'z) api_scheme" where
  "loadComments sceneName s =
     (if sceneName = [] then
        ([], s\<lparr>console := console s @ [LogWarn (Msg ''No scene name provided to loadComments'')]\<rparr>)
      else case map_of (cache s) sceneName of
        Some cached \<Rightarrow> (cached, s)
      | None \<Rightarrow>
          (let (cs, s1) =
                 safeExecute (\<lambda>s.
                     case getScene (data s) sceneName of
                       Own cs \<Rightarrow> (Inr (map materialize cs), s)
                     | Absent \<Rightarrow> (Inr [], s)
                     | Inherited \<Rightarrow> (Inl TypeError, s))
                   (Msg (''Error loading comments for scene: '' @ sceneName)) [] s;
               s2 = (if length (cache s1) \<ge> maxCacheSize s1
                     then s1\<lparr>cache := (case cache s1 of [] \<Rightarrow> [] | e # es \<Rightarrow> es)\<rparr>
                     else s1)
           in (cs, s2\<lparr>cache := AList.update sceneName cs (cache s2)\<rparr>)))"

text \<open>
  \<open>saveComment\<close>. The two readings of the environment, \<open>BAWUtils.utils.generateId()\<close>
  and \<open>new Date().toISOString()\<close>, are the arguments \<open>newId\<close> and \<open>now\<close>.
  \<open>featureName || null\<close> turns the empty string into \<open>null\<close>.
  \<^verbatim>\<open>
  saveComment(sceneName, comment, position, featureName, userName) {
    return BAWUtils.utils.safeExecute(() => {
      if (!this.data.comments[sceneName]) {
        this.data.comments[sceneName] = [];
      }
      const newComment = { id: BAWUtils.utils.generateId(), text: comment, ... };
      this.data.comments[sceneName].push(newComment);
      this.saveToStorage();
      return { ...newComment, position };
    }, 'Error saving comment', null);
  }
  \<close>
  For a scene name that \<open>Object.prototype\<close> has and the document has not, the test
  finds the inherited value, no list is made, and \<open>push\<close> throws.
\<close>

definition orNull :: "string option \<Rightarrow> string option" where
  "orNull v = (case v of None \<Rightarrow> None | Some t \<Rightarrow> if t = [] then None else Some t)"

definition setScene :: "string \<Rightarrow> comment list \<Rightarrow> document \<Rightarrow> document" where
  "setScene sceneName cs d = d\<lparr>comments := AList.update sceneName cs (comments d)\<rparr>"

definition saveComment ::
  "string \<Rightarrow> string \<Rightarrow> string \<Rightarrow> string \<Rightarrow> cartesian3 \<Rightarrow> string option \<Rightarrow> string
    \<Rightarrow> (document, 'z) api_scheme \<Rightarrow> mcomment option \<times> (document, 'z) api_scheme" where
  "saveComment newId now sceneName commentText pos featName userName =
     safeExecute (\<lambda>s.
       let s1 = (if getScene (data s) sceneName = Absent
                 then s\<lparr>data := setScene sceneName [] (data s)\<rparr> else s);
           newComment = \<lparr>id_c = newId, text_c = commentText,
                         position_x = c3_x pos, position_y = c3_y pos, position_z = c3_z pos,
                         featureName = orNull featName, timestamp = now,
                         user = userName, szene = sceneName\<rparr>
       in case getScene (data s1) sceneName of
            Own cs \<Rightarrow>
              (let s2 = s1\<lparr>data := setScene sceneName (cs @ [newComment]) (data s1)\<rparr>;
                   (ok, s3) = saveToStorage s2
               in (Inr (Some \<lparr>base = newComment, position = pos\<rparr>), s3))
          | Inherited \<Rightarrow> (Inl TypeError, s1)
          | Absent \<Rightarrow> (Inl TypeError, s1))
     (Msg ''Error saving comment'') None"

text \<open>
  \<open>updateComment\<close>: \<open>comments.find(c => c.id === commentId)\<close> is the first comment of
  the scene with that id; its \<open>text\<close> and \<open>timestamp\<close> are overwritten in place.
\<close>

fun updateFirst :: "string \<Rightarrow> string \<Rightarrow> string \<Rightarrow> comment list \<Rightarrow> comment list" where
  "updateFirst commentId newText now [] = []"
| "updateFirst commentId newText now (c # cs) =
     (if id_c c = commentId then c\<lparr>text_c := newText, timestamp := now\<rparr> # cs
      else c # updateFirst commentId newText now cs)"

definition updateComment ::
  "string \<Rightarrow> string \<Rightarrow> string \<Rightarrow> string
    \<Rightarrow> (document, 'z) api_scheme \<Rightarrow> bool \<times> (document, 'z) api_scheme" where
  "updateComment now commentId newText sceneName =
     safeExecute (\<lambda>s.
       case getScene (data s) sceneName of
         Absent \<Rightarrow> (Inl (Error ERROR_SCENE_NOT_FOUND), s)
       | Inherited \<Rightarrow> (Inl TypeError, s)
       | Own cs \<Rightarrow>
           (case find (\<lambda>c. id_c c = commentId) cs of
              None \<Rightarrow> (Inl (Error ERROR_COMMENT_NOT_FOUND), s)
            | Some c \<Rightarrow>
                (let s1 = s\<lparr>data := setScene sceneName
                                 (updateFirst commentId newText now cs) (data s)\<rparr>;
                     (ok, s2) = saveToStorage s1
                 in (Inr True, s2))))
     (Msg ''Error updating comment'') False"

text \<open>
  \<^verbatim>\<open>
  deleteComment(commentId, sceneName) {
    return BAWUtils.utils.safeExecute(() => {
      if (!this.data.comments[sceneName]) {
        throw new Error(BAWUtils.messages.ERROR_SCENE_NOT_FOUND);
      }
      const originalLength = this.data.comments[sceneName].length;
      this.data.comments[sceneName] = this.data.comments[sceneName].filter(
        c => c.id !== commentId
      );
      const deleted = this.data.comments[sceneName].length < originalLength;
      if (deleted) {
        this.saveToStorage();
      }
      return deleted;
    }, 'Error deleting comment', false);
  }
  \<close>
\<close>

definition deleteComment_body ::
  "string \<Rightarrow> string \<Rightarrow> (document, 'z) api_scheme
    \<Rightarrow> (error + bool) \<times> (document, 'z) api_scheme" where
  "deleteComment_body commentId sceneName s =
     (case getScene (data s) sceneName of
        Absent \<Rightarrow> (Inl (Error ERROR_SCENE_NOT_FOUND), s)
      | Inherited \<Rightarrow> (Inl TypeError, s)
      | Own cs \<Rightarrow>
          (let originalLength = length cs;
               s1 = s\<lparr>data := setScene sceneName
                                (filter (\<lambda>c. id_c c \<noteq> commentId) cs) (data s)\<rparr>;
               deleted = (length (sceneComments (data s1) sceneName) < originalLength)
           in if deleted then (let (ok, s2) = saveToStorage s1 in (Inr deleted, s2))
              else (Inr deleted, s1)))"

definition deleteComment ::
  "string \<Rightarrow> string \<Rightarrow> (document, 'z) api_scheme \<Rightarrow> bool \<times> (document, 'z) api_scheme" where
  "deleteComment commentId sceneName =
     safeExecute (deleteComment_body commentId sceneName) (Msg ''Error deleting comment'') False"

subsection \<open>CSV export and import, version 2.1.0\<close>

text \<open>
  \<^verbatim>\<open>
  _escapeCsvValue(value) { return String(value).replace(/"/g, '""'); }
  \<close>
\<close>

definition escapeCsvValue :: "string \<Rightarrow> string" where
  "escapeCsvValue v = concat (map (\<lambda>c. if c = CHR 0x22 then [CHR 0x22, CHR 0x22] else [c]) v)"

definition quoted :: "string \<Rightarrow> string" where
  "quoted v = [CHR 0x22] @ v @ [CHR 0x22]"

text \<open>
  \<^verbatim>\<open>
  exportCSV() {
    return BAWUtils.utils.safeExecute(() => {
      const headers = ['Szene', 'Kommentar', 'Position_X', 'Position_Y', 'Position_Z',
                       'Feature', 'Datum', 'ID', 'Benutzer'];
      const rows = [headers.join(',')];
      Object.entries(this.data.comments).forEach(([sceneName, comments]) => {
        comments.forEach(comment => {
          const row = [
            `"${this._escapeCsvValue(sceneName)}"`,
            `"${this._escapeCsvValue(comment.text)}"`,
            comment.position_x.toFixed(6),
            comment.position_y.toFixed(6),
            comment.position_z.toFixed(6),
            `"${this._escapeCsvValue(comment.featureName || '')}"`,
            `"${comment.timestamp}"`,
            `"${comment.id}"`,
            `"${this._escapeCsvValue(comment.user)}"`
          ];
          rows.push(row.join(','));
        });
      });
      return rows.join('\n');
    }, 'Error exporting CSV', 'Error');
  }
  \<close>
\<close>

text \<open>\<open>featureName || ''\<close>: the empty string for \<open>null\<close> and for the empty string.\<close>

definition orEmpty :: "string option \<Rightarrow> string" where
  "orEmpty v = (case v of None \<Rightarrow> [] | Some t \<Rightarrow> t)"

definition headers :: "string list" where
  "headers = [''Szene'', ''Kommentar'', ''Position_X'', ''Position_Y'', ''Position_Z'',
              ''Feature'', ''Datum'', ''ID'', ''Benutzer'']"

definition csvRow :: "(real \<Rightarrow> string) \<Rightarrow> string \<Rightarrow> comment \<Rightarrow> string list" where
  "csvRow numToString sceneName c =
     [quoted (escapeCsvValue sceneName),
      quoted (escapeCsvValue (text_c c)),
      toFixed6 numToString (position_x c),
      toFixed6 numToString (position_y c),
      toFixed6 numToString (position_z c),
      quoted (escapeCsvValue (orEmpty (featureName c))),
      quoted (timestamp c),
      quoted (id_c c),
      quoted (escapeCsvValue (user c))]"

text \<open>
  The pairs of a scene name and a comment in the order in which the two nested
  \<open>forEach\<close> calls visit them, and the rows they push.
\<close>

definition entries :: "document \<Rightarrow> (string \<times> comment) list" where
  "entries d = concat (map (\<lambda>(sceneName, cs). map (Pair sceneName) cs) (comments d))"

definition csvRows :: "(real \<Rightarrow> string) \<Rightarrow> document \<Rightarrow> string list list" where
  "csvRows numToString d = map (\<lambda>(sceneName, c). csvRow numToString sceneName c) (entries d)"

definition exportCSV ::
  "(real \<Rightarrow> string) \<Rightarrow> (document, 'z) api_scheme \<Rightarrow> string \<times> (document, 'z) api_scheme" where
  "exportCSV numToString =
     safeExecute (\<lambda>s.
       (Inr (join [CHR 0x0A]
               (join '','' headers # map (join '','') (csvRows numToString (data s)))), s))
     (Msg ''Error exporting CSV'') ''Error''"

text \<open>
  \<^verbatim>\<open>
  _parseCSVLine(line) {
    const result = [];
    let current = '';
    let inQuotes = false;
    for (let i = 0; i < line.length; i++) {
      const char = line[i];
      if (char === '"') {
        inQuotes = !inQuotes;
      } else if (char === ',' && !inQuotes) {
        result.push(current);
        current = '';
      } else {
        current += char;
      }
    }
    result.push(current);
    return result;
  }
  \<close>
\<close>

fun parseLoop :: "string \<Rightarrow> string list \<Rightarrow> string \<Rightarrow> bool \<Rightarrow> string list" where
  "parseLoop [] result current inQuotes = result @ [current]"
| "parseLoop (ch # line) result current inQuotes =
     (if ch = CHR 0x22 then parseLoop line result current (\<not> inQuotes)
      else if ch = CHR '','' \<and> \<not> inQuotes then parseLoop line (result @ [current]) [] inQuotes
      else parseLoop line result (current @ [ch]) inQuotes)"

definition parseCSVLine :: "string \<Rightarrow> string list" where
  "parseCSVLine line = parseLoop line [] [] False"

text \<open>
  \<^verbatim>\<open>
  importCSV(csvData) {
    return BAWUtils.utils.safeExecute(() => {
      const lines = csvData.split('\n').filter(line => line.trim());
      if (lines.length < 2) {
        throw new Error('CSV must have at least a header and one data row');
      }
      this.data.comments = {};
      for (let i = 1; i < lines.length; i++) {
        const values = this._parseCSVLine(lines[i]);
        if (values.length >= 9) {
          const sceneName = values[0];
          if (!this.data.comments[sceneName]) {
            this.data.comments[sceneName] = [];
          }
          this.data.comments[sceneName].push({
            text: values[1],
            position_x: parseFloat(values[2]),
            position_y: parseFloat(values[3]),
            position_z: parseFloat(values[4]),
            featureName: values[5] || null,
            timestamp: values[6],
            id: values[7],
            user: values[8],
            szene: sceneName
          });
        }
      }
      this.saveToStorage();
      this._cache.clear();
      return true;
    }, BAWUtils.messages.ERROR_FILE_IMPORT, false);
  }
  \<close>
  \<open>commentOfValues\<close> is the object literal; it is applied to lists of nine or more
  values only. \<open>importRows\<close> is the loop: it stops at the first line whose scene name
  reads an inherited property, where \<open>push\<close> throws, with the rows before it stored.
\<close>

definition commentOfValues :: "string list \<Rightarrow> comment" where
  "commentOfValues values =
     \<lparr>id_c = values ! 7, text_c = values ! 1,
      position_x = parseFloat (values ! 2),
      position_y = parseFloat (values ! 3),
      position_z = parseFloat (values ! 4),
      featureName = orNull (Some (values ! 5)),
      timestamp = values ! 6,
      user = values ! 8,
      szene = values ! 0\<rparr>"

fun importRows :: "string list \<Rightarrow> document \<Rightarrow> (error + unit) \<times> document" where
  "importRows [] d = (Inr (), d)"
| "importRows (line # lines) d =
     (let values = parseCSVLine line
      in if length values \<ge> 9 then
           (let sceneName = values ! 0;
                d1 = (if getScene d sceneName = Absent then setScene sceneName [] d else d)
            in case getScene d1 sceneName of
                 Own cs \<Rightarrow>
                   importRows lines (setScene sceneName (cs @ [commentOfValues values]) d1)
               | Inherited \<Rightarrow> (Inl TypeError, d1)
               | Absent \<Rightarrow> (Inl TypeError, d1))
         else importRows lines d)"

definition csvLines :: "string \<Rightarrow> string list" where
  "csvLines csvData = filter (\<lambda>line. trim line \<noteq> []) (split (CHR 0x0A) csvData)"

definition importCSV ::
  "string \<Rightarrow> (document, 'z) api_scheme \<Rightarrow> bool \<times> (document, 'z) api_scheme" where
  "importCSV csvData =
     safeExecute (\<lambda>s.
       let lines = csvLines csvData
       in if length lines < 2
          then (Inl (Error (Msg ''CSV must have at least a header and one data row'')), s)
          else
            (let s1 = s\<lparr>data := (data s)\<lparr>comments := []\<rparr>\<rparr>
             in case importRows (tl lines) (data s1) of
                  (Inl e, d) \<Rightarrow> (Inl e, s1\<lparr>data := d\<rparr>)
                | (Inr u, d) \<Rightarrow>
                    (let s2 = s1\<lparr>data := d\<rparr>;
                         (ok, s3) = saveToStorage s2;
                         s4 = s3\<lparr>cache := []\<rparr>
                     in (Inr True, s4))))
     ERROR_FILE_IMPORT False"

text \<open>
  The data lines that pass the test \<open>values.length >= 9\<close> of \<open>importCSV\<close>, parsed.
\<close>

definition rows9 :: "string list \<Rightarrow> string list list" where
  "rows9 lines = filter (\<lambda>values. 9 \<le> length values) (map parseCSVLine lines)"

text \<open>All comments of a document, scene by scene.\<close>

definition allComments :: "document \<Rightarrow> comment list" where
  "allComments d = concat (map snd (comments d))"

subsection \<open>JSON export and import\<close>

text \<open>
  \<open>importData\<close> installs whatever \<open>JSON.parse\<close> returns, so for the JSON operations
  the field \<open>data\<close> is a JSON value. An object is the list of its own properties in
  order. \<open>JSON.parse\<close> and \<open>JSON.stringify(value, null, 2)\<close> are functions of the runtime
  and are arguments of the model: \<open>None\<close> stands for the exception they throw.
\<close>

datatype jsval =
    JNull | JBool bool | JNum jsnum | JStr string
  | JArr "jsval list" | JObj "(string \<times> jsval) list"

text \<open>
  The JSON value of a document: the object that \<open>getDefaultData\<close>, \<open>saveComment\<close> and
  \<open>importCSV\<close> build, with the properties of a comment in the order of the object
  literal of \<open>saveComment\<close>.
\<close>

definition commentJson :: "comment \<Rightarrow> jsval" where
  "commentJson c =
     JObj [(''id'', JStr (id_c c)), (''text'', JStr (text_c c)),
           (''position_x'', JNum (position_x c)), (''position_y'', JNum (position_y c)),
           (''position_z'', JNum (position_z c)),
           (''featureName'', case featureName c of None \<Rightarrow> JNull | Some f \<Rightarrow> JStr f),
           (''timestamp'', JStr (timestamp c)), (''user'', JStr (user c)),
           (''szene'', JStr (szene c))]"

definition toJson :: "document \<Rightarrow> jsval" where
  "toJson d =
     JObj [(''comments'', JObj (map (\<lambda>(sceneName, cs). (sceneName, JArr (map commentJson cs)))
                                 (comments d))),
           (''metadata'', JObj [(''version'', JStr (metadata_version d))])]"

text \<open>
  What \<open>JSON.stringify\<close> followed by \<open>JSON.parse\<close> makes of a value: a number that is
  not finite comes back as \<open>null\<close>, everything else as it was.
\<close>

fun jsonClean :: "jsval \<Rightarrow> jsval" where
  "jsonClean (JNum NaN) = JNull"
| "jsonClean (JNum PosInf) = JNull"
| "jsonClean (JNum NegInf) = JNull"
| "jsonClean (JArr vs) = JArr (map jsonClean vs)"
| "jsonClean (JObj fs) = JObj (map (\<lambda>kv. (fst kv, jsonClean (snd kv))) fs)"
| "jsonClean v = v"

text \<open>
  \<open>parsed.comments\<close>: reading a property of \<open>null\<close> throws; an object has the property
  or not; a value of any other kind has no property of that name. Then the test
  \<open>!parsed.comments || typeof parsed.comments !== 'object'\<close>.
\<close>

definition commentsOf :: "jsval \<Rightarrow> error + jsval option" where
  "commentsOf v =
     (case v of JNull \<Rightarrow> Inl TypeError | JObj fs \<Rightarrow> Inr (map_of fs ''comments'') | _ \<Rightarrow> Inr None)"

definition truthy :: "jsval option \<Rightarrow> bool" where
  "truthy v =
     (case v of
        None \<Rightarrow> False
      | Some JNull \<Rightarrow> False
      | Some (JBool b) \<Rightarrow> b
      | Some (JNum n) \<Rightarrow> n \<noteq> Fin 0 \<and> n \<noteq> NaN
      | Some (JStr t) \<Rightarrow> t \<noteq> []
      | Some (JArr vs) \<Rightarrow> True
      | Some (JObj fs) \<Rightarrow> True)"

definition typeofObject :: "jsval option \<Rightarrow> bool" where
  "typeofObject v =
     (case v of Some JNull \<Rightarrow> True | Some (JArr vs) \<Rightarrow> True | Some (JObj fs) \<Rightarrow> True
      | _ \<Rightarrow> False)"

text \<open>
  \<^verbatim>\<open>
  exportJSON() {
    return BAWUtils.utils.safeExecute(
      () => JSON.stringify(this.data, null, 2), 'Error exporting JSON', '{}');
  }
  importData(jsonData) {
    return BAWUtils.utils.safeExecute(() => {
      const parsed = JSON.parse(jsonData);
      if (!parsed.comments || typeof parsed.comments !== 'object') {
        throw new Error(BAWUtils.messages.ERROR_INVALID_JSON);
      }
      this.data = parsed;
      this.saveToStorage();
      this._cache.clear();
      return true;
    }, BAWUtils.messages.ERROR_FILE_IMPORT, false);
  }
  \<close>
\<close>

definition exportJSON ::
  "(jsval \<Rightarrow> string option) \<Rightarrow> (jsval, 'z) api_scheme \<Rightarrow> string \<times> (jsval, 'z) api_scheme" where
  "exportJSON JSON_stringify =
     safeExecute (\<lambda>s.
       case JSON_stringify (data s) of
         None \<Rightarrow> (Inl TypeError, s)
       | Some t \<Rightarrow> (Inr t, s))
     (Msg ''Error exporting JSON'') ''{}''"

definition importData_body ::
  "(string \<Rightarrow> jsval option) \<Rightarrow> string \<Rightarrow> (jsval, 'z) api_scheme
    \<Rightarrow> (error + bool) \<times> (jsval, 'z) api_scheme" where
  "importData_body JSON_parse jsonData s =
     (case JSON_parse jsonData of
        None \<Rightarrow> (Inl SyntaxError, s)
      | Some parsed \<Rightarrow>
          (case commentsOf parsed of
             Inl e \<Rightarrow> (Inl e, s)
           | Inr c \<Rightarrow>
               if \<not> truthy c \<or> \<not> typeofObject c then (Inl (Error ERROR_INVALID_JSON), s)
               else
                 (let s1 = s\<lparr>data := parsed\<rparr>;
                      (ok, s2) = saveToStorage s1;
                      s3 = s2\<lparr>cache := []\<rparr>
                  in (Inr True, s3))))"

definition importData ::
  "(string \<Rightarrow> jsval option) \<Rightarrow> string \<Rightarrow> (jsval, 'z) api_scheme
    \<Rightarrow> bool \<times> (jsval, 'z) api_scheme" where
  "importData JSON_parse jsonData =
     safeExecute (importData_body JSON_parse jsonData) ERROR_FILE_IMPORT False"

text \<open>
  \<^verbatim>\<open>
  getStats() {
    let totalComments = 0;
    const scenes = Object.keys(this.data.comments);
    scenes.forEach(scene => { totalComments += this.data.comments[scene].length; });
    return { totalComments, scenes: scenes.length, scenesWithComments: scenes };
  }
  \<close>
  The model covers the stores whose \<open>data\<close> is an object with a property \<open>comments\<close>
  that is an object whose values are arrays; on any other store the result is \<open>None\<close>,
  which says nothing about what the method does there.
\<close>

record stats =
  totalComments :: nat
  scenes :: nat
  scenesWithComments :: "string list"

fun arrayLengths :: "(string \<times> jsval) list \<Rightarrow> nat option" where
  "arrayLengths [] = Some 0"
| "arrayLengths ((scene, JArr vs) # fs) =
     (case arrayLengths fs of None \<Rightarrow> None | Some n \<Rightarrow> Some (length vs + n))"
| "arrayLengths ((scene, v) # fs) = None"

definition getStats :: "(jsval, 'z) api_scheme \<Rightarrow> stats option" where
  "getStats s =
     (case data s of
        JObj props \<Rightarrow>
          (case map_of props ''comments'' of
             Some (JObj fs) \<Rightarrow>
               (case arrayLengths fs of
                  None \<Rightarrow> None
                | Some n \<Rightarrow>
                    Some \<lparr>totalComments = n, scenes = length fs,
                          scenesWithComments = map fst fs\<rparr>)
           | _ \<Rightarrow> None)
      | _ \<Rightarrow> None)"

subsection \<open>LocalCommentsAPI, version 2.0.0: the methods that differ\<close>

text \<open>
  \<^verbatim>\<open>
  deleteComment(commentId, sceneName) {
    if (!this.data.comments[sceneName]) throw new Error('Scene not found');
    this.data.comments[sceneName] = this.data.comments[sceneName].filter(c => c.id !== commentId);
    this.saveToStorage();
    return true;
  }
  \<close>
  \<open>saveToStorage\<close> is the same method but for the text of its log message.
\<close>

definition saveToStorage_v20 :: "('d, 'z) api_scheme \<Rightarrow> bool \<times> ('d, 'z) api_scheme" where
  "saveToStorage_v20 =
     safeExecute (\<lambda>s.
       case setItem s of
         (Inl e, s1) \<Rightarrow> (Inl e, s1)
       | (Inr u, s1) \<Rightarrow> (Inr True, s1\<lparr>cache := []\<rparr>))
     (Msg ''Error saving to storage'') False"

definition deleteComment_v20 ::
  "string \<Rightarrow> string \<Rightarrow> (document, 'z) api_scheme
    \<Rightarrow> (error + bool) \<times> (document, 'z) api_scheme" where
  "deleteComment_v20 commentId sceneName s =
     (case getScene (data s) sceneName of
        Absent \<Rightarrow> (Inl (Error (Msg ''Scene not found'')), s)
      | Inherited \<Rightarrow> (Inl TypeError, s)
      | Own cs \<Rightarrow>
          (let s1 = s\<lparr>data := setScene sceneName
                                (filter (\<lambda>c. id_c c \<noteq> commentId) cs) (data s)\<rparr>;
               (ok, s2) = saveToStorage_v20 s1
           in (Inr True, s2)))"

text \<open>
  \<^verbatim>\<open>
  saveComment(sceneName, comment, position, featureName, userName) {
    if (!this.data.comments[sceneName]) { this.data.comments[sceneName] = []; }
    const newComment = {
      id: Date.now().toString(),
      text: comment,
      position_x: position.x, position_y: position.y, position_z: position.z,
      featureName: featureName || null,
      timestamp: new Date().toISOString(),
      user: userName,
      szene: sceneName
    };
    this.data.comments[sceneName].push(newComment);
    this.saveToStorage();
    return { ...newComment, position };
  }
  \<close>
  \<open>Date.now()\<close> is the argument \<open>nowMs\<close>, the milliseconds since the epoch, and
  \<open>Number.prototype.toString\<close> of it is its decimal numeral. The \<open>TypeError\<close> of \<open>push\<close>
  on an inherited value is thrown to the caller.
\<close>

definition saveComment_v20 ::
  "nat \<Rightarrow> string \<Rightarrow> string \<Rightarrow> string \<Rightarrow> cartesian3 \<Rightarrow> string option \<Rightarrow> string
    \<Rightarrow> (document, 'z) api_scheme \<Rightarrow> (error + mcomment) \<times> (document, 'z) api_scheme" where
  "saveComment_v20 nowMs now sceneName commentText pos featName userName s =
     (let s1 = (if getScene (data s) sceneName = Absent
                then s\<lparr>data := setScene sceneName [] (data s)\<rparr> else s);
          newComment = \<lparr>id_c = toString_nat nowMs, text_c = commentText,
                        position_x = c3_x pos, position_y = c3_y pos, position_z = c3_z pos,
                        featureName = orNull featName, timestamp = now,
                        user = userName, szene = sceneName\<rparr>
      in case getScene (data s1) sceneName of
           Own cs \<Rightarrow>
             (let s2 = s1\<lparr>data := setScene sceneName (cs @ [newComment]) (data s1)\<rparr>;
                  (ok, s3) = saveToStorage_v20 s2
              in (Inr \<lparr>base = newComment, position = pos\<rparr>, s3))
         | Inherited \<Rightarrow> (Inl TypeError, s1)
         | Absent \<Rightarrow> (Inl TypeError, s1))"

text \<open>
  Version 2.0.0 has no wrapper:
  \<^verbatim>\<open>
  importData(jsonData) {
    const parsed = JSON.parse(jsonData);
    if (!parsed.comments || typeof parsed.comments !== 'object') {
      throw new Error('Invalid data structure');
    }
    this.data = parsed;
    this.saveToStorage();
    return true;
  }
  \<close>
\<close>

definition importData_v20 ::
  "(string \<Rightarrow> jsval option) \<Rightarrow> string \<Rightarrow> (jsval, 'z) api_scheme
    \<Rightarrow> (error + bool) \<times> (jsval, 'z) api_scheme" where
  "importData_v20 JSON_parse jsonData s =
     (case JSON_parse jsonData of
        None \<Rightarrow> (Inl SyntaxError, s)
      | Some parsed \<Rightarrow>
          (case commentsOf parsed of
             Inl e \<Rightarrow> (Inl e, s)
           | Inr c \<Rightarrow>
               if \<not> truthy c \<or> \<not> typeofObject c
               then (Inl (Error (Msg ''Invalid data structure'')), s)
               else
                 (let s1 = s\<lparr>data := parsed\<rparr>;
                      (ok, s2) = saveToStorage_v20 s1
                  in (Inr True, s2))))"

text \<open>
  \<open>importCSV\<close> of version 2.0.0 has the same lines, without the wrapper and without the
  second clearing of the cache; its \<open>parseCSVLine\<close> is \<open>_parseCSVLine\<close> of version 2.1.0
  word for word.
  \<^verbatim>\<open>
  importCSV(csvData) {
    const lines = csvData.split('\n').filter(line => line.trim());
    if (lines.length < 2) {
      throw new Error('CSV must have at least a header and one data row');
    }
    this.data.comments = {};
    for (let i = 1; i < lines.length; i++) { ... }
    this.saveToStorage();
    return true;
  }
  \<close>
\<close>

definition importCSV_v20 ::
  "string \<Rightarrow> (document, 'z) api_scheme \<Rightarrow> (error + bool) \<times> (document, 'z) api_scheme" where
  "importCSV_v20 csvData s =
     (let lines = csvLines csvData
      in if length lines < 2
         then (Inl (Error (Msg ''CSV must have at least a header and one data row'')), s)
         else
           (let s1 = s\<lparr>data := (data s)\<lparr>comments := []\<rparr>\<rparr>
            in case importRows (tl lines) (data s1) of
                 (Inl e, d) \<Rightarrow> (Inl e, s1\<lparr>data := d\<rparr>)
               | (Inr u, d) \<Rightarrow>
                   (let s2 = s1\<lparr>data := d\<rparr>;
                        (ok, s3) = saveToStorage_v20 s2
                    in (Inr True, s3))))"

subsection \<open>CommentsManager: placing a comment\<close>

text \<open>
  The fields of a \<open>CommentsManager\<close> that the placement reads and writes, on top of the
  fields of its \<open>api\<close>. \<open>currentGroup\<close> is the name of the loaded scene group or
  \<open>null\<close>; \<open>commentInput\<close> is the value of the DOM element of that id, \<open>None\<close> when the
  element does not exist; \<open>viewer\<close> is \<open>null\<close> or the flag \<open>scene.requestRenderMode\<close>.
  What the manager does to the page and to the scene is recorded as a list of events:
  the methods that do it catch their own errors.

  \<open>currentSceneComments\<close> is an array, and \<open>loadSceneComments\<close> (in version 2.0.0
  \<open>loadCommentsFromStorage\<close>) makes it the very array that \<open>loadComments\<close> returned,
  which is the one the cache holds for the scene. The
  field \<open>sharedWithCache\<close> records this: \<open>Some k\<close> says that \<open>currentSceneComments\<close> is the
  array that was cached for the scene \<open>k\<close>. As long as the cache has that entry, a
  \<open>push\<close> onto the array shows in the cache as well; once the cache has been cleared
  the array is the manager's alone.
\<close>

datatype level = Success | Warning | ErrorLevel | Info

datatype ui_event =
    Toast message level
  | AddCommentVisual mcomment nat
  | UpdateCommentsDisplay
  | UpdateDataStatus
  | UpdateCommentModeUI
  | ToggleIndicator bool
  | RequestRender
  | RefreshCommentVisuals
  | ToastErrorMessage string error level

record 'd manager = "'d api" +
  isCommentMode :: bool
  pendingPosition :: "cartesian3 option"
  pendingFeature :: "string option"
  currentSceneComments :: "mcomment list"
  sharedWithCache :: "string option"
  currentGroup :: "string option"
  userName :: string
  commentInput :: "string option"
  viewer :: "bool option"
  ui :: "ui_event list"

definition showToast :: "message \<Rightarrow> level \<Rightarrow> ('d, 'z) manager_scheme \<Rightarrow> ('d, 'z) manager_scheme" where
  "showToast msg lvl m = m\<lparr>ui := ui m @ [Toast msg lvl]\<rparr>"

text \<open>
  \<^verbatim>\<open>
  loadSceneComments() {
    BAWUtils.utils.safeExecute(() => {
      if (!this.currentGroup) {
        this.currentSceneComments = [];
        return;
      }
      this.currentSceneComments = this.api.loadComments(this.currentGroup.name);
      this.refreshCommentVisuals();
      this.updateCommentsDisplay();
      this.updateDataStatus();
      if (this.viewer && this.viewer.scene.requestRenderMode) {
        this.viewer.scene.requestRender();
      }
    }, 'Error loading scene comments');
  }
  \<close>
  For the empty scene name \<open>loadComments\<close> returns a fresh array, which is not cached.
\<close>

definition loadSceneComments ::
  "(document, 'z) manager_scheme \<Rightarrow> (document, 'z) manager_scheme" where
  "loadSceneComments m =
     snd (safeExecute (\<lambda>m.
            case currentGroup m of
              None \<Rightarrow> (Inr (), m\<lparr>currentSceneComments := [], sharedWithCache := None\<rparr>)
            | Some groupName \<Rightarrow>
                (let (cs, m1) = loadComments groupName m;
                     m2 = m1\<lparr>currentSceneComments := cs,
                              sharedWithCache := (if groupName = [] then None
                                                  else Some groupName)\<rparr>;
                     m3 = m2\<lparr>ui := ui m2 @
                             [RefreshCommentVisuals, UpdateCommentsDisplay, UpdateDataStatus]\<rparr>
                 in (Inr (),
                     if viewer m3 = Some True then m3\<lparr>ui := ui m3 @ [RequestRender]\<rparr>
                     else m3)))
          (Msg ''Error loading scene comments'') () m)"

text \<open>
  \<open>this.currentSceneComments.push(c)\<close>: the array grows by \<open>c\<close>, and with it the entry
  of the cache when that entry is this array.
\<close>

definition pushComment ::
  "mcomment \<Rightarrow> ('d, 'z) manager_scheme \<Rightarrow> ('d, 'z) manager_scheme" where
  "pushComment c m =
     (let cs = currentSceneComments m @ [c]
      in case sharedWithCache m of
           None \<Rightarrow> m\<lparr>currentSceneComments := cs\<rparr>
         | Some k \<Rightarrow>
             if map_of (cache m) k = None
             then m\<lparr>currentSceneComments := cs, sharedWithCache := None\<rparr>
             else m\<lparr>currentSceneComments := cs, cache := AList.update k cs (cache m)\<rparr>)"

text \<open>
  \<^verbatim>\<open>
  addComment() {
    const commentInput = BAWUtils.utils.getElement('commentInput');
    if (!commentInput) return;
    const commentText = commentInput.value.trim();
    if (!commentText) {
      BAWUtils.ui.showToast(BAWUtils.messages.COMMENT_NO_TEXT, "warning");
      return;
    }
    if (!this.pendingPosition) {
      BAWUtils.ui.showToast("Bitte klicken Sie zuerst auf die Karte", "warning");
      return;
    }
    const success = BAWUtils.utils.safeExecute(() => {
      const savedComment = this.api.saveComment(this.currentGroup.name, commentText,
        this.pendingPosition, this.pendingFeature, this.userName);
      if (savedComment) {
        this.currentSceneComments.push(savedComment);
        this.addCommentVisual(savedComment, this.currentSceneComments.length - 1);
        this.updateCommentsDisplay();
        this.updateDataStatus();
        commentInput.value = '';
        this.pendingPosition = null;
        this.pendingFeature = null;
        BAWUtils.ui.showToast(BAWUtils.messages.COMMENT_SAVED, "success");
        if (this.viewer.scene.requestRenderMode) { this.viewer.scene.requestRender(); }
        return true;
      }
      return false;
    }, 'Error adding comment', false);
    if (!success) {
      BAWUtils.ui.showToast('Fehler beim Speichern des Kommentars', 'error', ...);
    }
  }
  \<close>
\<close>

definition addComment_body ::
  "string \<Rightarrow> string \<Rightarrow> string \<Rightarrow> cartesian3
    \<Rightarrow> (document, 'z) manager_scheme \<Rightarrow> (error + bool) \<times> (document, 'z) manager_scheme" where
  "addComment_body newId now commentText pos m =
     (case currentGroup m of
        None \<Rightarrow> (Inl TypeError, m)
      | Some groupName \<Rightarrow>
          (let (savedComment, m1) =
                 saveComment newId now groupName commentText pos (pendingFeature m) (userName m) m
           in case savedComment of
                None \<Rightarrow> (Inr False, m1)
              | Some sc \<Rightarrow>
                  (let m2 = pushComment sc m1;
                       m3 = m2\<lparr>ui := ui m2 @
                               [AddCommentVisual sc (length (currentSceneComments m2) - 1),
                                UpdateCommentsDisplay, UpdateDataStatus]\<rparr>;
                       m4 = m3\<lparr>commentInput := Some [], pendingPosition := None,
                                pendingFeature := None\<rparr>;
                       m5 = showToast COMMENT_SAVED Success m4
                   in case viewer m5 of
                        None \<Rightarrow> (Inl TypeError, m5)
                      | Some requestRenderMode \<Rightarrow>
                          (Inr True,
                           if requestRenderMode then m5\<lparr>ui := ui m5 @ [RequestRender]\<rparr>
                           else m5))))"

definition addComment ::
  "string \<Rightarrow> string \<Rightarrow> (document, 'z) manager_scheme \<Rightarrow> (document, 'z) manager_scheme" where
  "addComment newId now m =
     (case commentInput m of
        None \<Rightarrow> m
      | Some v \<Rightarrow>
          (let commentText = trim v
           in if commentText = [] then showToast COMMENT_NO_TEXT Warning m
              else case pendingPosition m of
                None \<Rightarrow> showToast (Msg ''Bitte klicken Sie zuerst auf die Karte'') Warning m
              | Some pos \<Rightarrow>
                  (let (success, m1) =
                         safeExecute (addComment_body newId now commentText pos)
                           (Msg ''Error adding comment'') False m
                   in if \<not> success
                      then showToast (Msg ''Fehler beim Speichern des Kommentars'') ErrorLevel m1
                      else m1)))"

text \<open>
  Version 2.0.0:
  \<^verbatim>\<open>
  addComment() {
    if (!this.pendingPosition) return;
    const commentInput = BAWUtils.utils.getElement('commentInput');
    const text = commentInput?.value.trim();
    if (!text) { BAWUtils.ui.showToast("Bitte geben Sie einen Kommentar ein", "warning"); return; }
    if (!this.userName) { BAWUtils.ui.showToast("Bitte geben Sie Ihren Namen ein", "warning"); return; }
    if (!this.currentGroup) { BAWUtils.ui.showToast("Bitte laden Sie zuerst eine Szene", "warning"); return; }
    try {
      const comment = this.api.saveComment(this.currentGroup.name, text,
        this.pendingPosition, this.pendingFeature, this.userName);
      this.currentSceneComments.push(comment);
      this.updateCommentsDisplay();
      this.addCommentVisual(comment, this.currentSceneComments.length - 1);
      this.updateDataStatus();
      if (commentInput) commentInput.value = '';
      this.exitCommentMode();
      BAWUtils.ui.showToast("Kommentar gespeichert!", "success");
    } catch (error) {
      console.error("Failed to save comment:", error);
      BAWUtils.ui.showToast("Fehler beim Speichern: " + error.message, "error");
    }
  }
  exitCommentMode() {
    this.isCommentMode = false;
    this.pendingPosition = null;
    this.pendingFeature = null;
    this.updateCommentModeUI();
    BAWUtils.ui.toggleVisibility('commentModeIndicator', false);
  }
  \<close>
  \<open>saveComment\<close> of this version throws the \<open>TypeError\<close> of \<open>push\<close>; the event
  \<open>ToastErrorMessage t e l\<close> is the toast whose text is \<open>t\<close> followed by the message of
  the error \<open>e\<close>.
\<close>

definition exitCommentMode_v20 :: "('d, 'z) manager_scheme \<Rightarrow> ('d, 'z) manager_scheme" where
  "exitCommentMode_v20 m =
     (let m1 = m\<lparr>isCommentMode := False, pendingPosition := None, pendingFeature := None\<rparr>
      in m1\<lparr>ui := ui m1 @ [UpdateCommentModeUI, ToggleIndicator False]\<rparr>)"

definition addComment_v20 ::
  "nat \<Rightarrow> string \<Rightarrow> (document, 'z) manager_scheme \<Rightarrow> (document, 'z) manager_scheme" where
  "addComment_v20 nowMs now m =
     (case pendingPosition m of
        None \<Rightarrow> m
      | Some pos \<Rightarrow>
          (let text = (case commentInput m of None \<Rightarrow> None | Some v \<Rightarrow> Some (trim v))
           in if text = None \<or> text = Some []
              then showToast (Msg ''Bitte geben Sie einen Kommentar ein'') Warning m
              else if userName m = []
              then showToast (Msg ''Bitte geben Sie Ihren Namen ein'') Warning m
              else case currentGroup m of
                None \<Rightarrow> showToast (Msg ''Bitte laden Sie zuerst eine Szene'') Warning m
              | Some groupName \<Rightarrow>
                  (case saveComment_v20 nowMs now groupName (the text) pos
                          (pendingFeature m) (userName m) m of
                     (Inl e, m1) \<Rightarrow>
                       m1\<lparr>console := console m1 @ [LogError (Msg ''Failed to save comment:'') e],
                          ui := ui m1 @ [ToastErrorMessage ''Fehler beim Speichern: '' e ErrorLevel]\<rparr>
                   | (Inr comment, m1) \<Rightarrow>
                       (let m2 = pushComment comment m1;
                            m3 = m2\<lparr>ui := ui m2 @
                                    [UpdateCommentsDisplay,
                                     AddCommentVisual comment (length (currentSceneComments m2) - 1),
                                     UpdateDataStatus]\<rparr>;
                            m4 = (case commentInput m3 of None \<Rightarrow> m3
                                  | Some v \<Rightarrow> m3\<lparr>commentInput := Some []\<rparr>);
                            m5 = exitCommentMode_v20 m4
                        in showToast (Msg ''Kommentar gespeichert!'') Success m5))))"

subsection \<open>Example values\<close>

text \<open>
  The stores used to evaluate the operations: an empty store, and a store whose scene
  \<open>Lock A\<close> holds the comment "Leak at joint" at (10, 20, 5) by Anna.
\<close>

definition leak :: comment where
  "leak = \<lparr>id_c = ''1700000000000'', text_c = ''Leak at joint'',
            position_x = Fin 10, position_y = Fin 20, position_z = Fin 5,
            featureName = None, timestamp = ''2023-11-14T22:13:20.000Z'',
            user = ''Anna'', szene = ''Lock A''\<rparr>"

definition store0 :: "document api" where
  "store0 = \<lparr>console = [], data = getDefaultData ''1.0'', cache = [], maxCacheSize = 50,
             localStorage = None, setItemCalls = 0, quotaExceeded = False\<rparr>"

definition store1 :: "document api" where
  "store1 = store0\<lparr>data := \<lparr>comments = [(''Lock A'', [leak])], metadata_version = ''1.0''\<rparr>\<rparr>"

text \<open>
  A store whose storage is full, after \<open>loadComments\<close> has been called once for the
  scene \<open>Lock A\<close>.
\<close>

definition storeFull :: "document api" where
  "storeFull = snd (loadComments ''Lock A'' (store0\<lparr>quotaExceeded := True\<rparr>))"

text \<open>The comment of the round trip: its text holds a comma and two quotes.\<close>

definition said :: comment where
  "said = \<lparr>id_c = ''1700000000000'', text_c = ''He said, '' @ [CHR 0x22] @ ''hi'' @ [CHR 0x22],
            position_x = Fin 10, position_y = Fin 20, position_z = Fin 5,
            featureName = None, timestamp = ''2023-11-14T22:13:20.000Z'',
            user = ''Anna'', szene = ''Lock A''\<rparr>"

definition storeSaid :: "document api" where
  "storeSaid = store0\<lparr>data := \<lparr>comments = [(''Lock A'', [said])], metadata_version = ''1.0''\<rparr>\<rparr>"

text \<open>
  A CSV text with the header, a line of nine values and a line of three values.
\<close>

definition csvShort :: string where
  "csvShort =
     ''Szene,Kommentar,Position_X,Position_Y,Position_Z,Feature,Datum,ID,Benutzer'' @ [CHR 0x0A] @
     ''Lock A,Leak at joint,10.5,20,5,,2023-11-14T22:13:20.000Z,7,Anna'' @ [CHR 0x0A] @
     ''Lock A,only,three''"

text \<open>
  A CSV text with the header and four data lines: nine values, three values, nine
  values with the scene name \<open>toString\<close>, and nine values.
\<close>

definition csvInherited :: string where
  "csvInherited =
     ''Szene,Kommentar,Position_X,Position_Y,Position_Z,Feature,Datum,ID,Benutzer'' @ [CHR 0x0A] @
     ''Lock A,Leak at joint,10.5,20,5,,2023-11-14T22:13:20.000Z,7,Anna'' @ [CHR 0x0A] @
     ''Lock A,only,three'' @ [CHR 0x0A] @
     ''toString,Rust,10.5,20,5,,2023-11-14T22:13:21.000Z,8,Ben'' @ [CHR 0x0A] @
     ''Lock B,Crack,10.5,20,5,,2023-11-14T22:13:22.000Z,9,Cem''"

text \<open>
  A manager in comment mode on the scene \<open>Lock A\<close>, with a pending position and
  feature and three spaces in the comment input.
\<close>

definition manager1 :: "document manager" where
  "manager1 = api.extend store1
     (manager.fields True (Some (Cartesian3 (Fin 10) (Fin 20) (Fin 5))) (Some ''Tor'') [] None
        (Some ''Lock A'') ''Anna'' (Some ''   '') (Some True) [])"

text \<open>
  A manager whose storage is full, with the text "Leak at joint" in the comment input,
  after \<open>loadSceneComments\<close> has loaded the scene \<open>Lock A\<close>.
\<close>

definition managerFull :: "document manager" where
  "managerFull = loadSceneComments
     (api.extend (store0\<lparr>quotaExceeded := True\<rparr>)
        (manager.fields True (Some (Cartesian3 (Fin 10) (Fin 20) (Fin 5))) None [] None
           (Some ''Lock A'') ''Anna'' (Some ''Leak at joint'') (Some True) []))"

text \<open>
  A document with one comment whose \<open>position_x\<close> is \<open>NaN\<close> and a scene without
  comments, the text \<open>JSON.stringify(data, null, 2)\<close> gives for it, and the value
  \<open>JSON.parse\<close> gives for that text.
\<close>

definition docNaN :: document where
  "docNaN = \<lparr>comments = [(''Lock A'', [leak\<lparr>position_x := NaN\<rparr>]), (''Lock B'', [])],
             metadata_version = ''1.0''\<rparr>"

definition jsonNaN :: string where
  "jsonNaN =
     ''{'' @ [CHR 0x0A] @
     ''  '' @ [CHR 0x22] @ ''comments'' @ [CHR 0x22] @ '': {'' @ [CHR 0x0A] @
     ''    '' @ [CHR 0x22] @ ''Lock A'' @ [CHR 0x22] @ '': ['' @ [CHR 0x0A] @
     ''      {'' @ [CHR 0x0A] @
     ''        '' @ [CHR 0x22] @ ''id'' @ [CHR 0x22] @ '': '' @ [CHR 0x22] @
       ''1700000000000'' @ [CHR 0x22] @ '','' @ [CHR 0x0A] @
     ''        '' @ [CHR 0x22] @ ''text'' @ [CHR 0x22] @ '': '' @ [CHR 0x22] @
       ''Leak at joint'' @ [CHR 0x22] @ '','' @ [CHR 0x0A] @
     ''        '' @ [CHR 0x22] @ ''position_x'' @ [CHR 0x22] @ '': null,'' @ [CHR 0x0A] @
     ''        '' @ [CHR 0x22] @ ''position_y'' @ [CHR 0x22] @ '': 20,'' @ [CHR 0x0A] @
     ''        '' @ [CHR 0x22] @ ''position_z'' @ [CHR 0x22] @ '': 5,'' @ [CHR 0x0A] @
     ''        '' @ [CHR 0x22] @ ''featureName'' @ [CHR 0x22] @ '': null,'' @ [CHR 0x0A] @
     ''        '' @ [CHR 0x22] @ ''timestamp'' @ [CHR 0x22] @ '': '' @ [CHR 0x22] @
       ''2023-11-14T22:13:20.000Z'' @ [CHR 0x22] @ '','' @ [CHR 0x0A] @
     ''        '' @ [CHR 0x22] @ ''user'' @ [CHR 0x22] @ '': '' @ [CHR 0x22] @ ''Anna'' @
       [CHR 0x22] @ '','' @ [CHR 0x0A] @
     ''        '' @ [CHR 0x22] @ ''szene'' @ [CHR 0x22] @ '': '' @ [CHR 0x22] @
       ''Lock A'' @ [CHR 0x22] @ [CHR 0x0A] @
     ''      }'' @ [CHR 0x0A] @
     ''    ],'' @ [CHR 0x0A] @
     ''    '' @ [CHR 0x22] @ ''Lock B'' @ [CHR 0x22] @ '': []'' @ [CHR 0x0A] @
     ''  },'' @ [CHR 0x0A] @
     ''  '' @ [CHR 0x22] @ ''metadata'' @ [CHR 0x22] @ '': {'' @ [CHR 0x0A] @
     ''    '' @ [CHR 0x22] @ ''version'' @ [CHR 0x22] @ '': '' @ [CHR 0x22] @ ''1.0'' @
       [CHR 0x22] @ [CHR 0x0A] @
     ''  }'' @ [CHR 0x0A] @
     ''}''"

definition parsedNaN :: jsval where
  "parsedNaN =
     JObj [(''comments'',
            JObj [(''Lock A'',
                   JArr [JObj [(''id'', JStr ''1700000000000''), (''text'', JStr ''Leak at joint''),
                               (''position_x'', JNull), (''position_y'', JNum (Fin 20)),
                               (''position_z'', JNum (Fin 5)), (''featureName'', JNull),
                               (''timestamp'', JStr ''2023-11-14T22:13:20.000Z''),
                               (''user'', JStr ''Anna''), (''szene'', JStr ''Lock A'')]]),
                  (''Lock B'', JArr [])]),
           (''metadata'', JObj [(''version'', JStr ''1.0'')])]"

text \<open>
  \<open>JSON.stringify\<close> and \<open>JSON.parse\<close> on the values and texts used below; \<open>JSON.parse\<close>
  throws on a text that is not JSON, such as the first.
\<close>

definition stringifySample :: "jsval \<Rightarrow> string option" where
  "stringifySample v = (if v = toJson docNaN then Some jsonNaN else None)"

definition parseSample :: "string \<Rightarrow> jsval option" where
  "parseSample t =
     (if t = ''{'' then None
      else if t = ''{'' @ [CHR 0x22] @ ''comments'' @ [CHR 0x22] @ '':5}''
        then Some (JObj [(''comments'', JNum (Fin 5))])
      else if t = ''{'' @ [CHR 0x22] @ ''comments'' @ [CHR 0x22] @ '':[]}''
        then Some (JObj [(''comments'', JArr [])])
      else if t = ''{'' @ [CHR 0x22] @ ''comments'' @ [CHR 0x22] @ '':{}}''
        then Some (JObj [(''comments'', JObj [])])
      else if t = jsonNaN then Some parsedNaN
      else None)"

definition jstore0 :: "jsval api" where
  "jstore0 = \<lparr>console = [], data = toJson (getDefaultData ''1.0''), cache = [], maxCacheSize = 50,
             localStorage = None, setItemCalls = 0, quotaExceeded = False\<rparr>"

definition jstoreNaN :: "jsval api" where
  "jstoreNaN = jstore0\<lparr>data := toJson docNaN\<rparr>"

section \<open>Properties\<close>

subsection \<open>Association lists and the storage write\<close>

lemma update_same: "map_of al k = Some v \<Longrightarrow> AList.update k v al = al"
  by (induction al) (auto split: if_splits)

lemma setScene_same: "map_of (comments d) k = Some v \<Longrightarrow> setScene k v d = d"
  by (simp add: setScene_def update_same)

lemma sceneComments_setScene [simp]: "sceneComments (setScene k v d) k = v"
  by (simp add: sceneComments_def setScene_def update_conv')

lemma getScene_Own [simp]: "map_of (comments d) k = Some cs \<Longrightarrow> getScene d k = Own cs"
  by (simp add: getScene_def)

lemma getScene_setScene [simp]: "getScene (setScene k v d) k = Own v"
  by (simp add: getScene_def setScene_def update_conv')

lemma getScene_Own_iff: "getScene d k = Own cs \<longleftrightarrow> map_of (comments d) k = Some cs"
  by (simp add: getScene_def split: option.splits)

lemma filter_id_all: "(\<forall>c\<in>set cs. id_c c \<noteq> i) \<Longrightarrow> filter (\<lambda>c. id_c c \<noteq> i) cs = cs"
  by (induction cs) auto

lemma saveToStorage_calls: "setItemCalls (snd (saveToStorage s)) = setItemCalls s + 1"
  by (simp add: saveToStorage_def safeExecute_def setItem_def Let_def)

lemma saveToStorage_data: "data (snd (saveToStorage s)) = data s"
  by (simp add: saveToStorage_def safeExecute_def setItem_def Let_def)

subsection \<open>deleteComment\<close>

text \<open>
  What \<open>deleteComment\<close> of version 2.1.0 does in each case of the scene name. When
  neither the document nor \<open>Object.prototype\<close> has the name, the \<open>Error\<close> thrown for it
  is caught by the method's own \<open>safeExecute\<close>: the call logs the error and returns
  \<open>false\<close>, and nothing else changes. When the name is found on \<open>Object.prototype\<close> only,
  \<open>filter\<close> throws a \<open>TypeError\<close>, which is caught in the same way. When the scene has
  an entry but no comment of its list has the id, the call returns \<open>false\<close> and the
  whole store (document, cache, storage, number of \<open>setItem\<close> calls) is as before. A
  \<open>setItem\<close> call is made only when the call returns \<open>true\<close> and the scene's list has
  become shorter.
\<close>

lemma deleteComment_absent_scene:
  fixes s :: "(document, 'z) api_scheme"
  assumes "getScene (data s) sceneName = Absent"
  shows "deleteComment commentId sceneName s =
           (False, s\<lparr>console := console s @
               [LogError (Msg ''Error deleting comment'') (Error ERROR_SCENE_NOT_FOUND)]\<rparr>)"
  using assms by (simp add: deleteComment_def deleteComment_body_def safeExecute_def)

lemma deleteComment_inherited_scene:
  fixes s :: "(document, 'z) api_scheme"
  assumes "getScene (data s) sceneName = Inherited"
  shows "deleteComment commentId sceneName s =
           (False, s\<lparr>console := console s @
               [LogError (Msg ''Error deleting comment'') TypeError]\<rparr>)"
  using assms by (simp add: deleteComment_def deleteComment_body_def safeExecute_def)

lemma deleteComment_unknown_id:
  fixes s :: "(document, 'z) api_scheme"
  assumes "map_of (comments (data s)) sceneName = Some cs"
    and "\<forall>c\<in>set cs. id_c c \<noteq> commentId"
  shows "deleteComment commentId sceneName s = (False, s)"
  using assms
  by (simp add: deleteComment_def deleteComment_body_def safeExecute_def filter_id_all
      setScene_same Let_def sceneComments_def)

lemma deleteComment_persists_only_if_shrunk:
  fixes s :: "(document, 'z) api_scheme"
  assumes c: "setItemCalls (snd (deleteComment commentId sceneName s)) \<noteq> setItemCalls s"
  shows "fst (deleteComment commentId sceneName s)
       \<and> length (sceneComments (data (snd (deleteComment commentId sceneName s))) sceneName)
           < length (sceneComments (data s) sceneName)"
proof (cases "getScene (data s) sceneName")
  case (Own cs)
  then have m: "map_of (comments (data s)) sceneName = Some cs"
    by (simp add: getScene_def split: option.splits if_splits)
  let ?s1 = "s\<lparr>data := setScene sceneName (filter (\<lambda>c. id_c c \<noteq> commentId) cs) (data s)\<rparr>"
  show ?thesis
  proof (cases "length (filter (\<lambda>c. id_c c \<noteq> commentId) cs) < length cs")
    case True
    then show ?thesis
      using Own m saveToStorage_data [of ?s1]
      by (simp add: deleteComment_def deleteComment_body_def safeExecute_def Let_def
          case_prod_beta sceneComments_def [of "data s"])
  next
    case False
    then have "deleteComment commentId sceneName s = (False, ?s1)"
      using Own
      by (simp add: deleteComment_def deleteComment_body_def safeExecute_def Let_def)
    with c show ?thesis by simp
  qed
next
  case Inherited
  with c show ?thesis by (simp add: deleteComment_inherited_scene)
next
  case Absent
  with c show ?thesis by (simp add: deleteComment_absent_scene)
qed

text \<open>
  Version 2.0.0 throws on a scene that is not found. On a scene with an entry it
  filters, writes to storage and returns \<open>true\<close>, whether or not a comment had the id.
\<close>

lemma deleteComment_v20_absent_scene:
  fixes s :: "(document, 'z) api_scheme"
  assumes "getScene (data s) sceneName = Absent"
  shows "deleteComment_v20 commentId sceneName s = (Inl (Error (Msg ''Scene not found'')), s)"
  using assms by (simp add: deleteComment_v20_def)

lemma deleteComment_v20_own_scene:
  fixes s :: "(document, 'z) api_scheme"
  assumes "map_of (comments (data s)) sceneName = Some cs"
  shows "fst (deleteComment_v20 commentId sceneName s) = Inr True
       \<and> setItemCalls (snd (deleteComment_v20 commentId sceneName s)) = setItemCalls s + 1"
  using assms
  by (simp add: deleteComment_v20_def saveToStorage_v20_def safeExecute_def setItem_def Let_def)

text \<open>
  C1 at the store whose only scene is \<open>Lock A\<close>, with the one comment \<open>leak\<close>.

  Version 2.1.0, scene \<open>Lock B\<close>, which has no entry: the body of \<open>deleteComment\<close> throws
  the scene-not-found \<open>Error\<close> that the method documents (\<open>@throws {Error} If scene not
  found\<close>), but the method's own wrapper catches it, and the caller receives \<open>false\<close>
  and no failure; \<open>false\<close> is also what the caller receives for the existing scene
  \<open>Lock A\<close> and an id no comment has.

  Version 2.0.0, scene \<open>Lock A\<close> and the id \<open>7\<close>, which no comment has: the call returns
  \<open>true\<close> and has written to storage, with the document as it was.
\<close>

theorem deleteComment_missing_scene_and_id:
  "getScene (data store1) ''Lock B'' = Absent
   \<and> fst (deleteComment_body ''1700000000000'' ''Lock B'' store1)
       = Inl (Error ERROR_SCENE_NOT_FOUND)
   \<and> deleteComment ''1700000000000'' ''Lock B'' store1 =
       (False, store1\<lparr>console :=
          [LogError (Msg ''Error deleting comment'') (Error ERROR_SCENE_NOT_FOUND)]\<rparr>)
   \<and> deleteComment ''7'' ''Lock A'' store1 = (False, store1)
   \<and> getScene (data store1) ''Lock A'' = Own [leak]
   \<and> id_c leak = ''1700000000000''
   \<and> fst (deleteComment_v20 ''7'' ''Lock A'' store1) = Inr True
   \<and> setItemCalls store1 = 0
   \<and> setItemCalls (snd (deleteComment_v20 ''7'' ''Lock A'' store1)) = 1
   \<and> localStorage (snd (deleteComment_v20 ''7'' ''Lock A'' store1)) = Some (data store1)
   \<and> data (snd (deleteComment_v20 ''7'' ''Lock A'' store1)) = data store1"
  by (simp add: deleteComment_def deleteComment_body_def deleteComment_v20_def
      saveToStorage_v20_def safeExecute_def setItem_def Let_def
      getScene_def objectPrototypeNames_def setScene_def sceneComments_def
      store1_def store0_def leak_def getDefaultData_def)

subsection \<open>Committing an empty text\<close>

text \<open>
  C8. In the state where a position has been chosen (comment mode on, a pending
  position), committing a text that is empty after trimming only shows the warning
  toast \<open>COMMENT_NO_TEXT\<close>: the manager keeps its mode, its pending position and
  feature, and the store (document, cache, storage, number of \<open>setItem\<close> calls) is
  untouched, so no \<open>saveComment\<close> and no write took place.
\<close>

theorem addComment_empty_text:
  fixes m :: "(document, 'z) manager_scheme"
  assumes "isCommentMode m" and "pendingPosition m = Some pos"
    and "commentInput m = Some v" and "trim v = []"
  shows "addComment newId now m = m\<lparr>ui := ui m @ [Toast COMMENT_NO_TEXT Warning]\<rparr>
       \<and> isCommentMode (addComment newId now m)
       \<and> pendingPosition (addComment newId now m) = Some pos
       \<and> pendingFeature (addComment newId now m) = pendingFeature m
       \<and> data (addComment newId now m) = data m
       \<and> localStorage (addComment newId now m) = localStorage m
       \<and> setItemCalls (addComment newId now m) = setItemCalls m"
  using assms by (simp add: addComment_def showToast_def)

theorem addComment_empty_text_witness:
  "isCommentMode manager1
   \<and> pendingPosition manager1 = Some (Cartesian3 (Fin 10) (Fin 20) (Fin 5))
   \<and> commentInput manager1 = Some ''   '' \<and> trim ''   '' = []
   \<and> addComment ''1700000000001'' ''2023-11-14T22:13:21.000Z'' manager1
       = manager1\<lparr>ui := [Toast COMMENT_NO_TEXT Warning]\<rparr>"
proof -
  have h: "isCommentMode manager1"
    "pendingPosition manager1 = Some (Cartesian3 (Fin 10) (Fin 20) (Fin 5))"
    "commentInput manager1 = Some ''   ''" "trim ''   '' = []"
    by (simp_all add: manager1_def manager.defs api.defs trim_def isWhiteSpace_def
        store1_def store0_def)
  have u: "ui manager1 = []"
    by (simp add: manager1_def manager.defs api.defs store1_def store0_def)
  show ?thesis
    using h u addComment_empty_text [OF h, of "''1700000000001''" "''2023-11-14T22:13:21.000Z''"]
    by simp
qed

text \<open>Version 2.0.0 does the same, with the text of the warning written out.\<close>

lemma addComment_v20_empty_text:
  fixes m :: "(document, 'z) manager_scheme"
  assumes "pendingPosition m = Some pos"
    and "commentInput m = Some v" and "trim v = []"
  shows "addComment_v20 nowMs now m =
           m\<lparr>ui := ui m @ [Toast (Msg ''Bitte geben Sie einen Kommentar ein'') Warning]\<rparr>"
  using assms by (simp add: addComment_v20_def showToast_def)

subsection \<open>The array shared with the cache\<close>

text \<open>
  On the manager \<open>managerFull\<close>, whose storage is full, \<open>loadSceneComments\<close> has cached
  the empty list of \<open>Lock A\<close> and made it \<open>currentSceneComments\<close>. \<open>addComment\<close> saves
  the comment; the write fails, so the cache is not cleared, and the \<open>push\<close> onto
  \<open>currentSceneComments\<close> is a push onto the cached array: the cache holds the new
  record. On the same manager with room in the storage the cache is cleared by the
  write, and the array is the manager's alone.
\<close>

lemma addComment_shared_array:
  "sharedWithCache managerFull = Some ''Lock A''
   \<and> cache managerFull = [(''Lock A'', [])]
   \<and> currentSceneComments managerFull = []
   \<and> currentSceneComments
        (addComment ''1700000000000'' ''2023-11-14T22:13:20.000Z'' managerFull)
       = [\<lparr>base = leak, position = Cartesian3 (Fin 10) (Fin 20) (Fin 5)\<rparr>]
   \<and> cache (addComment ''1700000000000'' ''2023-11-14T22:13:20.000Z'' managerFull)
       = [(''Lock A'', [\<lparr>base = leak, position = Cartesian3 (Fin 10) (Fin 20) (Fin 5)\<rparr>])]
   \<and> currentSceneComments
        (addComment ''1700000000000'' ''2023-11-14T22:13:20.000Z''
           (managerFull\<lparr>quotaExceeded := False\<rparr>))
       = [\<lparr>base = leak, position = Cartesian3 (Fin 10) (Fin 20) (Fin 5)\<rparr>]
   \<and> cache (addComment ''1700000000000'' ''2023-11-14T22:13:20.000Z''
           (managerFull\<lparr>quotaExceeded := False\<rparr>)) = []
   \<and> sharedWithCache (addComment ''1700000000000'' ''2023-11-14T22:13:20.000Z''
           (managerFull\<lparr>quotaExceeded := False\<rparr>)) = None"
  by (simp add: managerFull_def loadSceneComments_def loadComments_def addComment_def
      addComment_body_def pushComment_def showToast_def saveComment_def safeExecute_def
      saveToStorage_def setItem_def Let_def setScene_def getScene_def objectPrototypeNames_def
      orNull_def trim_def isWhiteSpace_def manager.defs api.defs
      store0_def leak_def getDefaultData_def)

subsection \<open>updateComment\<close>

lemma updateFirst_split:
  "find (\<lambda>c. id_c c = i) cs = Some c \<Longrightarrow>
   \<exists>pre post. cs = pre @ c # post \<and> (\<forall>x\<in>set pre. id_c x \<noteq> i) \<and> id_c c = i
      \<and> updateFirst i t n cs = pre @ c\<lparr>text_c := t, timestamp := n\<rparr> # post"
proof (induction cs)
  case Nil
  then show ?case by simp
next
  case (Cons a cs)
  show ?case
  proof (cases "id_c a = i")
    case True
    with Cons.prems have "a = c" by simp
    with True show ?thesis by (intro exI [of _ "[]"] exI [of _ cs]) simp
  next
    case False
    with Cons.prems have "find (\<lambda>c. id_c c = i) cs = Some c" by simp
    from Cons.IH [OF this] obtain pre post where
      p: "cs = pre @ c # post" "\<forall>x\<in>set pre. id_c x \<noteq> i" "id_c c = i"
         "updateFirst i t n cs = pre @ c\<lparr>text_c := t, timestamp := n\<rparr> # post"
      by blast
    with False show ?thesis
      by (intro exI [of _ "a # pre"] exI [of _ post]) simp
  qed
qed

lemma keys_update_present:
  "map_of al k = Some v0 \<Longrightarrow> map fst (AList.update k v al) = map fst al"
  by (induction al) (auto split: if_splits)

text \<open>
  C6, as the code has it. A successful \<open>updateComment\<close> rewrites, in the list of the
  scene, the first comment with the id: its \<open>text\<close> becomes the new text and its one
  time field \<open>timestamp\<close> becomes the time of the edit. Its id, position, feature name,
  user and scene, the comments before and after it, the lists of all other scenes, the
  order of the scenes and the metadata are unchanged.
\<close>

theorem updateComment_frame:
  fixes s :: "(document, 'z) api_scheme"
  assumes ok: "fst (updateComment now commentId newText sceneName s)"
  shows "\<exists>pre c post.
           map_of (comments (data s)) sceneName = Some (pre @ c # post)
         \<and> (\<forall>x\<in>set pre. id_c x \<noteq> commentId) \<and> id_c c = commentId
         \<and> map_of (comments (data (snd (updateComment now commentId newText sceneName s)))) sceneName
             = Some (pre @ c\<lparr>text_c := newText, timestamp := now\<rparr> # post)
         \<and> (\<forall>k. k \<noteq> sceneName \<longrightarrow>
               map_of (comments (data (snd (updateComment now commentId newText sceneName s)))) k
               = map_of (comments (data s)) k)
         \<and> map fst (comments (data (snd (updateComment now commentId newText sceneName s))))
             = map fst (comments (data s))
         \<and> metadata_version (data (snd (updateComment now commentId newText sceneName s)))
             = metadata_version (data s)"
proof -
  define s' where "s' = snd (updateComment now commentId newText sceneName s)"
  from ok obtain cs where g: "getScene (data s) sceneName = Own cs"
    by (cases "getScene (data s) sceneName") (auto simp: updateComment_def safeExecute_def)
  then have cs: "map_of (comments (data s)) sceneName = Some cs"
    by (simp add: getScene_Own_iff)
  from ok g obtain c where c: "find (\<lambda>c. id_c c = commentId) cs = Some c"
    by (auto simp: updateComment_def safeExecute_def split: option.splits)
  from g c have d: "data s' = setScene sceneName (updateFirst commentId newText now cs) (data s)"
    using saveToStorage_data [of "s\<lparr>data := setScene sceneName
          (updateFirst commentId newText now cs) (data s)\<rparr>"]
    by (auto simp: s'_def updateComment_def safeExecute_def Let_def split: prod.splits)
  from updateFirst_split [OF c, of newText now] obtain pre post where
    p: "cs = pre @ c # post" "\<forall>x\<in>set pre. id_c x \<noteq> commentId" "id_c c = commentId"
       "updateFirst commentId newText now cs = pre @ c\<lparr>text_c := newText, timestamp := now\<rparr> # post"
    by blast
  show ?thesis
    unfolding s'_def [symmetric]
    apply (rule exI [of _ pre], rule exI [of _ c], rule exI [of _ post])
    using cs p d
    by (simp add: setScene_def update_conv' keys_update_present)
qed

theorem updateComment_frame_witness:
  "fst (updateComment ''2023-11-15T08:00:00.000Z'' ''1700000000000'' ''Leak repaired'' ''Lock A'' store1)
   \<and> map_of (comments (data store1)) ''Lock A'' = Some ([] @ leak # [])
   \<and> id_c leak = ''1700000000000''
   \<and> map_of (comments (data (snd (updateComment ''2023-11-15T08:00:00.000Z''
          ''1700000000000'' ''Leak repaired'' ''Lock A'' store1)))) ''Lock A''
       = Some [leak\<lparr>text_c := ''Leak repaired'', timestamp := ''2023-11-15T08:00:00.000Z''\<rparr>]"
proof -
  have ok: "fst (updateComment ''2023-11-15T08:00:00.000Z'' ''1700000000000'' ''Leak repaired''
              ''Lock A'' store1)"
    by (simp add: updateComment_def safeExecute_def saveToStorage_def setItem_def Let_def
        getScene_def store1_def store0_def leak_def)
  have a: "map_of (comments (data store1)) ''Lock A'' = Some [leak]"
    by (simp add: store1_def store0_def)
  from updateComment_frame [OF ok] a show ?thesis
    using ok by (auto simp: Cons_eq_append_conv append_eq_Cons_conv leak_def)
qed

text \<open>
  C6 as stated fails for the creation time. A comment has the single time field
  \<open>timestamp\<close>, which \<open>saveComment\<close> sets when the comment is created and
  \<open>updateComment\<close> overwrites: after an edit no field of the comment holds the time
  of its creation.
\<close>

theorem updateComment_creation_time_counterexample:
  "fst (saveComment ''1700000000000'' ''2023-11-14T22:13:20.000Z'' ''Lock A'' ''Leak at joint''
          (Cartesian3 (Fin 10) (Fin 20) (Fin 5)) None ''Anna'' store0)
     = Some \<lparr>base = leak, position = Cartesian3 (Fin 10) (Fin 20) (Fin 5)\<rparr>
   \<and> data (snd (saveComment ''1700000000000'' ''2023-11-14T22:13:20.000Z'' ''Lock A''
          ''Leak at joint'' (Cartesian3 (Fin 10) (Fin 20) (Fin 5)) None ''Anna'' store0))
     = data store1
   \<and> fst (updateComment ''2023-11-15T08:00:00.000Z'' ''1700000000000'' ''Leak repaired''
          ''Lock A'' store1)
   \<and> allComments (data (snd (updateComment ''2023-11-15T08:00:00.000Z'' ''1700000000000''
          ''Leak repaired'' ''Lock A'' store1)))
     = [\<lparr>id_c = ''1700000000000'', text_c = ''Leak repaired'',
         position_x = Fin 10, position_y = Fin 20, position_z = Fin 5,
         featureName = None, timestamp = ''2023-11-15T08:00:00.000Z'',
         user = ''Anna'', szene = ''Lock A''\<rparr>]
   \<and> ''2023-11-15T08:00:00.000Z'' \<noteq> timestamp leak"
  by (simp add: saveComment_def updateComment_def safeExecute_def saveToStorage_def setItem_def
      Let_def setScene_def getScene_def objectPrototypeNames_def orNull_def allComments_def
      store1_def store0_def leak_def getDefaultData_def)

subsection \<open>saveComment followed by loadComments\<close>

lemma Cartesian3_eta [simp]: "Cartesian3 (c3_x p) (c3_y p) (c3_z p) = p"
  by (cases p) simp

text \<open>
  On a scene name that only \<open>Object.prototype\<close> has, \<open>saveComment\<close> stores nothing: the
  \<open>TypeError\<close> of \<open>push\<close> is logged and the call returns \<open>null\<close>. On every other scene
  name it returns the record, appends the comment and calls \<open>saveToStorage\<close>.
\<close>

lemma saveComment_inherited_scene:
  fixes s :: "(document, 'z) api_scheme"
  assumes "getScene (data s) sceneName = Inherited"
  shows "saveComment newId now sceneName commentText pos featName usr s
           = (None, s\<lparr>console := console s @ [LogError (Msg ''Error saving comment'') TypeError]\<rparr>)"
  using assms by (simp add: saveComment_def safeExecute_def Let_def)

lemma saveComment_result:
  fixes s :: "(document, 'z) api_scheme"
  assumes "getScene (data s) sceneName \<noteq> Inherited"
  shows "fst (saveComment newId now sceneName commentText pos featName usr s)
           = Some \<lparr>base = \<lparr>id_c = newId, text_c = commentText,
                        position_x = c3_x pos, position_y = c3_y pos, position_z = c3_z pos,
                        featureName = orNull featName, timestamp = now,
                        user = usr, szene = sceneName\<rparr>, position = pos\<rparr>"
  using assms
  by (cases "getScene (data s) sceneName")
     (simp_all add: saveComment_def safeExecute_def Let_def case_prod_beta)

lemma saveComment_data:
  fixes s :: "(document, 'z) api_scheme"
  assumes "getScene (data s) sceneName \<noteq> Inherited"
  shows "data (snd (saveComment newId now sceneName commentText pos featName usr s))
           = setScene sceneName (sceneComments (data s) sceneName @
               [\<lparr>id_c = newId, text_c = commentText,
                        position_x = c3_x pos, position_y = c3_y pos, position_z = c3_z pos,
                        featureName = orNull featName, timestamp = now,
                        user = usr, szene = sceneName\<rparr>]) (data s)"
proof -
  have u: "AList.update k w (AList.update k v al) = AList.update k w al"
    for k and v w :: "comment list" and al
    by (induction al) auto
  have e: "getScene (data s) sceneName = Absent \<Longrightarrow> sceneComments (data s) sceneName = []"
    by (simp add: sceneComments_def getScene_def split: option.splits)
  have o: "getScene (data s) sceneName = Own cs \<Longrightarrow> sceneComments (data s) sceneName = cs" for cs
    by (simp add: sceneComments_def getScene_Own_iff)
  have v: "setScene sceneName w (setScene sceneName [] (data s)) = setScene sceneName w (data s)" for w
    by (simp add: setScene_def u)
  show ?thesis
    using assms
    by (cases "getScene (data s) sceneName")
       (simp_all add: saveComment_def safeExecute_def Let_def case_prod_beta saveToStorage_data
          e o v)
qed

lemma saveComment_cache:
  fixes s :: "(document, 'z) api_scheme"
  assumes "getScene (data s) sceneName \<noteq> Inherited"
  shows "cache (snd (saveComment newId now sceneName commentText pos featName usr s))
           = (if quotaExceeded s then cache s else [])"
  using assms
  by (cases "getScene (data s) sceneName")
     (simp_all add: saveComment_def safeExecute_def Let_def saveToStorage_def setItem_def)

lemma loadComments_miss:
  fixes s :: "(document, 'z) api_scheme"
  shows "sceneName \<noteq> [] \<Longrightarrow> map_of (cache s) sceneName = None \<Longrightarrow>
     fst (loadComments sceneName s) = map materialize (sceneComments (data s) sceneName)"
  by (cases "getScene (data s) sceneName")
     (auto simp: loadComments_def safeExecute_def Let_def sceneComments_def getScene_def
        split: option.splits if_splits)

text \<open>
  When the scene name is not one that only \<open>Object.prototype\<close> has, and the write to
  storage succeeds or the scene is not in the cache, the list that \<open>loadComments\<close>
  returns after \<open>saveComment\<close> is the scene's list before the call followed by the
  record that \<open>saveComment\<close> returned.
\<close>

lemma saveComment_then_loadComments:
  fixes s :: "(document, 'z) api_scheme"
  assumes "sceneName \<noteq> []" and "\<not> quotaExceeded s \<or> map_of (cache s) sceneName = None"
    and n: "getScene (data s) sceneName \<noteq> Inherited"
  shows "fst (loadComments sceneName
            (snd (saveComment newId now sceneName commentText pos featName usr s)))
         = map materialize (sceneComments (data s) sceneName) @
             [the (fst (saveComment newId now sceneName commentText pos featName usr s))]"
proof -
  let ?s' = "snd (saveComment newId now sceneName commentText pos featName usr s)"
  from assms(2) have "map_of (cache ?s') sceneName = None"
    by (auto simp: saveComment_cache [OF n])
  from loadComments_miss [OF assms(1) this] show ?thesis
    by (simp add: saveComment_data [OF n] saveComment_result [OF n] materialize_def)
qed

text \<open>
  C7 at a store whose storage is full and whose cache holds the scene. \<open>saveComment\<close>
  appends the comment to the document and returns the record, but \<open>setItem\<close> throws
  inside \<open>saveToStorage\<close> before the cache is cleared, and \<open>loadComments\<close> answers
  from the cache: the list it returns does not contain the new record.
\<close>

theorem saveComment_stale_cache:
  "cache storeFull = [(''Lock A'', [])] \<and> quotaExceeded storeFull
   \<and> fst (saveComment ''1700000000000'' ''2023-11-14T22:13:20.000Z'' ''Lock A'' ''Leak at joint''
            (Cartesian3 (Fin 10) (Fin 20) (Fin 5)) None ''Anna'' storeFull)
       = Some \<lparr>base = leak, position = Cartesian3 (Fin 10) (Fin 20) (Fin 5)\<rparr>
   \<and> sceneComments (data (snd (saveComment ''1700000000000'' ''2023-11-14T22:13:20.000Z''
            ''Lock A'' ''Leak at joint'' (Cartesian3 (Fin 10) (Fin 20) (Fin 5)) None ''Anna''
            storeFull))) ''Lock A'' = [leak]
   \<and> fst (loadComments ''Lock A''
            (snd (saveComment ''1700000000000'' ''2023-11-14T22:13:20.000Z'' ''Lock A''
               ''Leak at joint'' (Cartesian3 (Fin 10) (Fin 20) (Fin 5)) None ''Anna''
               storeFull))) = []"
  by (simp add: storeFull_def loadComments_def saveComment_def safeExecute_def saveToStorage_def
      setItem_def Let_def setScene_def sceneComments_def getScene_def objectPrototypeNames_def
      orNull_def store0_def leak_def getDefaultData_def)

subsection \<open>Decimal numerals\<close>

lemma digit_code: "n < 10 \<Longrightarrow> of_char (digit n) = (48 + n :: nat)"
proof -
  assume "n < 10"
  then have "n \<in> {0, 1, 2, 3, 4, 5, 6, 7, 8, 9}" by auto
  then show ?thesis by (auto simp: digit_def)
qed

lemma isDigit_digit: "n < 10 \<Longrightarrow> isDigit (digit n)"
  by (simp add: isDigit_def digit_code)

lemma toString_nat_digits: "\<forall>c\<in>set (toString_nat n). isDigit c"
proof (induction n rule: toString_nat.induct)
  case (1 n)
  show ?case
  proof (cases "n < 10")
    case True
    then show ?thesis by (subst toString_nat.simps) (simp add: isDigit_digit)
  next
    case False
    with 1 show ?thesis by (subst toString_nat.simps) (simp add: isDigit_digit)
  qed
qed

lemma toString_nat_nonempty: "toString_nat n \<noteq> []"
  by (subst toString_nat.simps) simp

lemma digitsValue_snoc: "digitsValue (ds @ [c]) = 10 * digitsValue ds + (of_char c - 48)"
  by (simp add: digitsValue_def)

lemma digitsValue_toString_nat: "digitsValue (toString_nat n) = n"
proof (induction n rule: toString_nat.induct)
  case (1 n)
  show ?case
  proof (cases "n < 10")
    case True
    then show ?thesis
      by (subst toString_nat.simps) (simp add: digitsValue_def digit_code)
  next
    case False
    with 1 have "digitsValue (toString_nat (n div 10)) = n div 10" by simp
    with False show ?thesis
      by (subst toString_nat.simps) (simp add: digitsValue_snoc digit_code)
  qed
qed

lemma digitsValue_zeros: "digitsValue (replicate k (CHR ''0'') @ ds) = digitsValue ds"
proof -
  have "foldl (\<lambda>acc c. 10 * acc + (of_char c - 48)) 0 (replicate k (CHR ''0'')) = (0::nat)"
    by (induction k) simp_all
  then show ?thesis by (simp add: digitsValue_def)
qed

text \<open>The shape and the value of \<open>toFixed(6)\<close> on a finite number below \<open>10^21\<close>.\<close>

lemma toFixed6_finite:
  assumes "\<bar>x\<bar> < 10 ^ 21"
  shows "\<exists>ip fp. toFixed6 numToString (Fin x) = (if x < 0 then ''-'' else '''') @ ip @ ''.'' @ fp
           \<and> ip \<noteq> [] \<and> length fp = 6 \<and> (\<forall>c\<in>set (ip @ fp). isDigit c)
           \<and> digitsValue (ip @ fp) = nat \<lfloor>\<bar>x\<bar> * 10 ^ 6 + 1 / 2\<rfloor>"
proof -
  define n where "n = nat \<lfloor>\<bar>x\<bar> * 10 ^ 6 + 1 / 2\<rfloor>"
  define m0 where "m0 = toString_nat n"
  define m where "m = (if length m0 \<le> 6 then replicate (7 - length m0) (CHR ''0'') @ m0 else m0)"
  have len: "7 \<le> length m" by (auto simp: m_def)
  have dig: "\<forall>c\<in>set m. isDigit c"
    using toString_nat_digits [of n] by (auto simp: m_def m0_def isDigit_def)
  have val: "digitsValue m = n"
    by (simp add: m_def m0_def digitsValue_zeros digitsValue_toString_nat)
  have eq: "toFixed6 numToString (Fin x)
      = (if x < 0 then ''-'' else '''') @ take (length m - 6) m @ ''.'' @ drop (length m - 6) m"
    using assms by (simp add: toFixed6_def Let_def n_def m0_def m_def)
  show ?thesis
    apply (rule exI [of _ "take (length m - 6) m"], rule exI [of _ "drop (length m - 6) m"])
    using len dig val eq by (auto simp: n_def)
qed

lemma replicate_numeral: "replicate (numeral k) x = x # replicate (pred_numeral k) x"
  by (simp add: numeral_eq_Suc)

subsection \<open>Reading decimal literals\<close>

text \<open>
  The values of \<open>parseFloat\<close> on the literals of the examples: \<open>10.5\<close>, \<open>20\<close> and \<open>5\<close> are
  doubles and are read exactly, \<open>0.1\<close> is read as the double nearest to it.
\<close>

lemma bitLength_values:
  "bitLength 1 = 1" "bitLength 5 = 3" "bitLength 10 = 4" "bitLength 20 = 5"
  "bitLength 105 = 7" "bitLength 1000000 = 20" "bitLength 5000000 = 23"
  "bitLength 10000000 = 24" "bitLength 20000000 = 25"
  by (simp_all add: bitLength.simps)

lemma toDouble_values:
  "toDouble 105 10 = Fin (21 / 2)" "toDouble 20 1 = Fin 20" "toDouble 5 1 = Fin 5"
  "toDouble 10000000 1000000 = Fin 10" "toDouble 20000000 1000000 = Fin 20"
  "toDouble 5000000 1000000 = Fin 5"
  "toDouble 1 10 = Fin (3602879701896397 / 36028797018963968)"
  unfolding toDouble_def bitLength_values Let_def
  apply simp_all
  apply (simp_all add: roundTiesToEven_def pow2_def Let_def)
  done

lemma parseFloat_values:
  "parseFloat ''10.5'' = Fin (21 / 2)" "parseFloat ''20'' = Fin 20" "parseFloat ''5'' = Fin 5"
  "parseFloat ''10.000000'' = Fin 10" "parseFloat ''20.000000'' = Fin 20"
  "parseFloat ''5.000000'' = Fin 5"
  "parseFloat ''0.1'' = Fin (3602879701896397 / 36028797018963968)"
  by (simp_all add: parseFloat_def Let_def isDigit_def isWhiteSpace_def digitsValue_def
      exponentPart_def toDouble_values [simplified])

subsection \<open>The rows of exportCSV\<close>

text \<open>
  C3, as the code has it. The export is the header line followed by one line per
  comment, in the order of the scenes and of the comments in each scene, the lines
  joined by line feeds and the nine fields of a line by commas, in the order scene,
  text, x, y, z, feature name, timestamp, id, user. Scene, text, feature name (the
  empty string for \<open>null\<close>) and user are wrapped in double quotes with every quote
  inside doubled, whether or not the value needs it; timestamp and id are wrapped in
  double quotes as they are; the three coordinates are not wrapped: each is the
  \<open>toFixed(6)\<close> text of the number, which for a finite number of magnitude below
  \<open>10^21\<close> is an optional minus sign, at least one digit, a point and exactly six
  digits, the digits being those of the number rounded to the nearest millionth.
\<close>

theorem exportCSV_format:
  fixes s :: "(document, 'z) api_scheme"
  shows "fst (exportCSV numToString s) =
           join [CHR 0x0A]
             (''Szene,Kommentar,Position_X,Position_Y,Position_Z,Feature,Datum,ID,Benutzer''
              # map (join '','') (csvRows numToString (data s)))
       \<and> csvRows numToString (data s) =
           map (\<lambda>(sceneName, c).
                  [quoted (escapeCsvValue sceneName),
                   quoted (escapeCsvValue (text_c c)),
                   toFixed6 numToString (position_x c),
                   toFixed6 numToString (position_y c),
                   toFixed6 numToString (position_z c),
                   quoted (escapeCsvValue (orEmpty (featureName c))),
                   quoted (timestamp c),
                   quoted (id_c c),
                   quoted (escapeCsvValue (user c))])
               (entries (data s))
       \<and> (\<forall>v. escapeCsvValue v =
                concat (map (\<lambda>ch. if ch = CHR 0x22 then [CHR 0x22, CHR 0x22] else [ch]) v))
       \<and> (\<forall>v. quoted v = [CHR 0x22] @ v @ [CHR 0x22])
       \<and> (\<forall>x. \<bar>x\<bar> < 10 ^ 21 \<longrightarrow>
              (\<exists>ip fp. toFixed6 numToString (Fin x) = (if x < 0 then ''-'' else []) @ ip @ ''.'' @ fp
                 \<and> ip \<noteq> [] \<and> length fp = 6 \<and> (\<forall>c\<in>set (ip @ fp). isDigit c)
                 \<and> digitsValue (ip @ fp) = nat \<lfloor>\<bar>x\<bar> * 10 ^ 6 + 1 / 2\<rfloor>))"
proof (intro conjI allI impI)
  show "fst (exportCSV numToString s) =
           join [CHR 0x0A]
             (''Szene,Kommentar,Position_X,Position_Y,Position_Z,Feature,Datum,ID,Benutzer''
              # map (join '','') (csvRows numToString (data s)))"
    by (simp add: exportCSV_def safeExecute_def headers_def)
next
  show "csvRows numToString (data s) =
           map (\<lambda>(sceneName, c).
                  [quoted (escapeCsvValue sceneName),
                   quoted (escapeCsvValue (text_c c)),
                   toFixed6 numToString (position_x c),
                   toFixed6 numToString (position_y c),
                   toFixed6 numToString (position_z c),
                   quoted (escapeCsvValue (orEmpty (featureName c))),
                   quoted (timestamp c),
                   quoted (id_c c),
                   quoted (escapeCsvValue (user c))])
               (entries (data s))"
    by (simp add: csvRows_def csvRow_def)
next
  fix v
  show "escapeCsvValue v =
          concat (map (\<lambda>ch. if ch = CHR 0x22 then [CHR 0x22, CHR 0x22] else [ch]) v)"
    by (simp add: escapeCsvValue_def)
  show "quoted v = [CHR 0x22] @ v @ [CHR 0x22]"
    by (simp add: quoted_def)
next
  fix x :: real
  assume "\<bar>x\<bar> < 10 ^ 21"
  from toFixed6_finite [OF this]
  show "\<exists>ip fp. toFixed6 numToString (Fin x) = (if x < 0 then ''-'' else []) @ ip @ ''.'' @ fp
                 \<and> ip \<noteq> [] \<and> length fp = 6 \<and> (\<forall>c\<in>set (ip @ fp). isDigit c)
                 \<and> digitsValue (ip @ fp) = nat \<lfloor>\<bar>x\<bar> * 10 ^ 6 + 1 / 2\<rfloor>"
    by simp
qed

theorem exportCSV_format_witness:
  "\<bar>10 :: real\<bar> < 10 ^ 21
   \<and> toFixed6 (\<lambda>x. []) (Fin 10) = ''10'' @ ''.'' @ ''000000''
   \<and> fst (exportCSV (\<lambda>x. []) store1) =
       ''Szene,Kommentar,Position_X,Position_Y,Position_Z,Feature,Datum,ID,Benutzer'' @ [CHR 0x0A] @
       [CHR 0x22] @ ''Lock A'' @ [CHR 0x22] @ '','' @
       [CHR 0x22] @ ''Leak at joint'' @ [CHR 0x22] @
       '',10.000000,20.000000,5.000000,'' @ [CHR 0x22, CHR 0x22] @ '','' @
       [CHR 0x22] @ ''2023-11-14T22:13:20.000Z'' @ [CHR 0x22] @ '','' @
       [CHR 0x22] @ ''1700000000000'' @ [CHR 0x22] @ '','' @ [CHR 0x22] @ ''Anna'' @ [CHR 0x22]"
proof -
  have a: "\<bar>10 :: real\<bar> < 10 ^ 21" by simp
  have b: "toFixed6 (\<lambda>x. []) (Fin 10) = ''10.000000''"
    apply (simp add: toFixed6_def Let_def)
    apply (simp add: toString_nat.simps digit_def replicate_numeral)
    done
  have c: "toFixed6 (\<lambda>x. []) (Fin 20) = ''20.000000''"
    apply (simp add: toFixed6_def Let_def)
    apply (simp add: toString_nat.simps digit_def replicate_numeral)
    done
  have d: "toFixed6 (\<lambda>x. []) (Fin 5) = ''5.000000''"
    apply (simp add: toFixed6_def Let_def)
    apply (simp add: toString_nat.simps digit_def replicate_numeral)
    done
  have e: "entries (data store1) = [(''Lock A'', leak)]"
    by (simp add: entries_def store1_def store0_def)
  from exportCSV_format [of "\<lambda>x. []" store1]
  have "fst (exportCSV (\<lambda>x. []) store1) =
           join [CHR 0x0A]
             (''Szene,Kommentar,Position_X,Position_Y,Position_Z,Feature,Datum,ID,Benutzer''
              # map (join '','')
                 (map (\<lambda>(sceneName, c).
                  [quoted (escapeCsvValue sceneName),
                   quoted (escapeCsvValue (text_c c)),
                   toFixed6 (\<lambda>x. []) (position_x c),
                   toFixed6 (\<lambda>x. []) (position_y c),
                   toFixed6 (\<lambda>x. []) (position_z c),
                   quoted (escapeCsvValue (orEmpty (featureName c))),
                   quoted (timestamp c),
                   quoted (id_c c),
                   quoted (escapeCsvValue (user c))])
               (entries (data store1))))"
    by simp
  then show ?thesis
    using a b by (simp add: e leak_def b c d quoted_def escapeCsvValue_def orEmpty_def)
qed

text \<open>
  C3 as stated fails: not every field is wrapped in quotes with its quotes doubled. A
  coordinate field is the bare number, and a quote inside an id is not doubled.
\<close>

theorem exportCSV_unquoted_counterexample:
  "csvRow (\<lambda>x. []) ''Lock A'' leak ! 2 = ''10.000000''
   \<and> csvRow (\<lambda>x. []) ''Lock A'' (leak\<lparr>id_c := [CHR ''a'', CHR 0x22, CHR ''b'']\<rparr>) ! 7
       = [CHR 0x22, CHR ''a'', CHR 0x22, CHR ''b'', CHR 0x22]
   \<and> \<not> (\<forall>field\<in>set (csvRow (\<lambda>x. []) ''Lock A'' leak). \<exists>v. field = quoted v)"
proof -
  have b: "toFixed6 (\<lambda>x. []) (Fin 10) = ''10.000000''"
    apply (simp add: toFixed6_def Let_def)
    apply (simp add: toString_nat.simps digit_def replicate_numeral)
    done
  have "\<not> (\<exists>v. ''10.000000'' = quoted v)" by (simp add: quoted_def)
  then show ?thesis
    by (simp add: csvRow_def leak_def b quoted_def)
qed

subsection \<open>importCSV\<close>

lemma map_of_setScene: "map_of (comments (setScene k v d)) = (map_of (comments d))(k \<mapsto> v)"
  by (simp add: setScene_def update_conv')

lemma sceneComments_setScene_other [simp]:
  "k' \<noteq> k \<Longrightarrow> sceneComments (setScene k v d) k' = sceneComments d k'"
  by (simp add: sceneComments_def map_of_setScene)

lemma keys_update: "fst ` set (AList.update k v al) = insert k (fst ` set al)"
  by (induction al) auto

lemma keys_setScene: "fst ` set (comments (setScene k v d)) = insert k (fst ` set (comments d))"
  by (simp add: setScene_def keys_update)

lemma setScene_twice: "setScene k w (setScene k v d) = setScene k w d"
proof -
  have "AList.update k w (AList.update k v al) = AList.update k w al"
    for al :: "(string \<times> comment list) list"
    by (induction al) auto
  then show ?thesis by (simp add: setScene_def)
qed

text \<open>
  The step of the loop on a line of nine or more values whose scene name is not a name
  of \<open>Object.prototype\<close>: the comment is appended to the list of the scene, which is
  made when the scene is new.
\<close>

lemma importRows_step:
  assumes "9 \<le> length (parseCSVLine line)"
    and "parseCSVLine line ! 0 \<notin> set objectPrototypeNames"
  shows "importRows (line # lines) d =
           importRows lines
             (setScene (parseCSVLine line ! 0)
                (sceneComments d (parseCSVLine line ! 0) @ [commentOfValues (parseCSVLine line)]) d)"
proof (cases "map_of (comments d) (parseCSVLine line ! 0)")
  case None
  with assms(2) have "getScene d (parseCSVLine line ! 0) = Absent"
    by (simp add: getScene_def)
  with assms(1) None show ?thesis
    by (simp add: Let_def setScene_twice sceneComments_def)
next
  case (Some cs)
  with assms(1) show ?thesis
    by (simp add: Let_def sceneComments_def)
qed

text \<open>
  On a line of nine or more values whose scene name is found on \<open>Object.prototype\<close> and
  not in the document, the loop stops with the \<open>TypeError\<close> of \<open>push\<close>.
\<close>

lemma importRows_inherited:
  assumes "9 \<le> length (parseCSVLine line)"
    and "getScene d (parseCSVLine line ! 0) = Inherited"
  shows "importRows (line # lines) d = (Inl TypeError, d)"
  using assms by (simp add: Let_def)

lemma rows9_Cons:
  "rows9 (line # lines) =
     (if 9 \<le> length (parseCSVLine line) then parseCSVLine line # rows9 lines else rows9 lines)"
  by (simp add: rows9_def)

lemma importRows_ok:
  "\<forall>values\<in>set (rows9 lines). values ! 0 \<notin> set objectPrototypeNames \<Longrightarrow>
   fst (importRows lines d) = Inr ()"
proof (induction lines arbitrary: d)
  case Nil
  then show ?case by simp
next
  case (Cons line lines)
  show ?case
  proof (cases "9 \<le> length (parseCSVLine line)")
    case True
    with Cons.prems have p: "parseCSVLine line ! 0 \<notin> set objectPrototypeNames"
      and r: "\<forall>values\<in>set (rows9 lines). values ! 0 \<notin> set objectPrototypeNames"
      by (simp_all add: rows9_Cons)
    show ?thesis
      unfolding importRows_step [OF True p] by (rule Cons.IH [OF r])
  next
    case False
    with Cons.prems have r: "\<forall>values\<in>set (rows9 lines). values ! 0 \<notin> set objectPrototypeNames"
      by (simp add: rows9_Cons)
    from False Cons.IH [OF r] show ?thesis by (simp add: Let_def)
  qed
qed

lemma importRows_scene:
  "\<forall>values\<in>set (rows9 lines). values ! 0 \<notin> set objectPrototypeNames \<Longrightarrow>
   sceneComments (snd (importRows lines d)) sc
     = sceneComments d sc @ map commentOfValues (filter (\<lambda>values. values ! 0 = sc) (rows9 lines))"
proof (induction lines arbitrary: d)
  case Nil
  then show ?case by (simp add: rows9_def)
next
  case (Cons line lines)
  show ?case
  proof (cases "9 \<le> length (parseCSVLine line)")
    case True
    with Cons.prems have p: "parseCSVLine line ! 0 \<notin> set objectPrototypeNames"
      and r: "\<forall>values\<in>set (rows9 lines). values ! 0 \<notin> set objectPrototypeNames"
      by (simp_all add: rows9_Cons)
    show ?thesis
      unfolding importRows_step [OF True p] Cons.IH [OF r]
      using True by (cases "parseCSVLine line ! 0 = sc") (simp_all add: rows9_Cons)
  next
    case False
    with Cons.prems have r: "\<forall>values\<in>set (rows9 lines). values ! 0 \<notin> set objectPrototypeNames"
      by (simp add: rows9_Cons)
    from False Cons.IH [OF r] show ?thesis by (simp add: Let_def rows9_Cons)
  qed
qed

lemma importRows_keys:
  "\<forall>values\<in>set (rows9 lines). values ! 0 \<notin> set objectPrototypeNames \<Longrightarrow>
   fst ` set (comments (snd (importRows lines d)))
     = fst ` set (comments d) \<union> (\<lambda>values. values ! 0) ` set (rows9 lines)"
proof (induction lines arbitrary: d)
  case Nil
  then show ?case by (simp add: rows9_def)
next
  case (Cons line lines)
  show ?case
  proof (cases "9 \<le> length (parseCSVLine line)")
    case True
    with Cons.prems have p: "parseCSVLine line ! 0 \<notin> set objectPrototypeNames"
      and r: "\<forall>values\<in>set (rows9 lines). values ! 0 \<notin> set objectPrototypeNames"
      by (simp_all add: rows9_Cons)
    show ?thesis
      unfolding importRows_step [OF True p] Cons.IH [OF r]
      using True by (simp add: rows9_Cons keys_setScene)
  next
    case False
    with Cons.prems have r: "\<forall>values\<in>set (rows9 lines). values ! 0 \<notin> set objectPrototypeNames"
      by (simp add: rows9_Cons)
    from False Cons.IH [OF r] show ?thesis by (simp add: Let_def rows9_Cons)
  qed
qed

lemma distinct_setScene:
  "distinct (map fst (comments d)) \<Longrightarrow> distinct (map fst (comments (setScene k v d)))"
  by (simp add: setScene_def distinct_update)

lemma importRows_distinct:
  "distinct (map fst (comments d)) \<Longrightarrow> distinct (map fst (comments (snd (importRows lines d))))"
proof (induction lines arbitrary: d)
  case Nil
  then show ?case by simp
next
  case (Cons line lines)
  show ?case
  proof (cases "9 \<le> length (parseCSVLine line)")
    case True
    let ?k = "parseCSVLine line ! 0"
    let ?d1 = "if getScene d ?k = Absent then setScene ?k [] d else d"
    have d1: "distinct (map fst (comments ?d1))"
      using Cons.prems by (simp add: distinct_setScene)
    show ?thesis
      using True d1 Cons.IH
      by (cases "getScene ?d1 ?k") (simp_all add: Let_def distinct_setScene)
  next
    case False
    with Cons show ?thesis by (simp add: Let_def)
  qed
qed

lemma importRows_metadata: "metadata_version (snd (importRows lines d)) = metadata_version d"
proof (induction lines arbitrary: d)
  case Nil
  then show ?case by simp
next
  case (Cons line lines)
  show ?case
  proof (cases "9 \<le> length (parseCSVLine line)")
    case True
    let ?k = "parseCSVLine line ! 0"
    let ?d1 = "if getScene d ?k = Absent then setScene ?k [] d else d"
    have d1: "metadata_version ?d1 = metadata_version d"
      by (simp add: setScene_def)
    show ?thesis
      using True d1 Cons.IH
      by (cases "getScene ?d1 ?k") (simp_all add: Let_def setScene_def)
  next
    case False
    with Cons show ?thesis by (simp add: Let_def)
  qed
qed

lemma mset_update:
  "mset (concat (map snd (AList.update k v al))) + mset (case map_of al k of None \<Rightarrow> [] | Some w \<Rightarrow> w)
     = mset (concat (map snd al)) + mset v"
  by (induction al) auto

lemma allComments_step:
  "mset (allComments (setScene k (sceneComments d k @ [c]) d)) = mset (allComments d) + {#c#}"
  using mset_update [of k "sceneComments d k @ [c]" "comments d"]
  by (simp add: allComments_def setScene_def sceneComments_def)

lemma importRows_all:
  "\<forall>values\<in>set (rows9 lines). values ! 0 \<notin> set objectPrototypeNames \<Longrightarrow>
   mset (allComments (snd (importRows lines d)))
     = mset (allComments d) + mset (map commentOfValues (rows9 lines))"
proof (induction lines arbitrary: d)
  case Nil
  then show ?case by (simp add: rows9_def)
next
  case (Cons line lines)
  show ?case
  proof (cases "9 \<le> length (parseCSVLine line)")
    case True
    with Cons.prems have p: "parseCSVLine line ! 0 \<notin> set objectPrototypeNames"
      and r: "\<forall>values\<in>set (rows9 lines). values ! 0 \<notin> set objectPrototypeNames"
      by (simp_all add: rows9_Cons)
    show ?thesis
      unfolding importRows_step [OF True p] Cons.IH [OF r]
      using True by (simp add: rows9_Cons allComments_step)
  next
    case False
    with Cons.prems have r: "\<forall>values\<in>set (rows9 lines). values ! 0 \<notin> set objectPrototypeNames"
      by (simp add: rows9_Cons)
    from False Cons.IH [OF r] show ?thesis by (simp add: Let_def rows9_Cons)
  qed
qed

text \<open>
  What holds of \<open>importCSV\<close>. When the text has two or more lines that are not blank and
  no line of nine or more values has a name of \<open>Object.prototype\<close> as its scene,
  \<open>importCSV\<close> returns \<open>true\<close> and logs nothing for a skipped line (the only possible
  log entry is that of a failed write to storage). The document it leaves has, for
  every scene, the comments built from the data lines of nine or more values whose
  first value is that scene, in the order of the lines; its scenes are the first
  values of those lines; all its comments together are the comments built from those
  lines, so there may be fewer of them than data lines. The metadata is kept and the
  cache is empty.
\<close>

lemma importCSV_plain_scene_names:
  fixes s :: "(document, 'z) api_scheme"
  assumes "2 \<le> length (csvLines csvData)"
    and p: "\<forall>values\<in>set (rows9 (tl (csvLines csvData))). values ! 0 \<notin> set objectPrototypeNames"
  shows "fst (importCSV csvData s)
       \<and> console (snd (importCSV csvData s))
           = console s @ (if quotaExceeded s then [LogError ERROR_STORAGE QuotaExceededError] else [])
       \<and> (\<forall>sc. sceneComments (data (snd (importCSV csvData s))) sc
             = map commentOfValues
                 (filter (\<lambda>values. values ! 0 = sc) (rows9 (tl (csvLines csvData)))))
       \<and> fst ` set (comments (data (snd (importCSV csvData s))))
           = (\<lambda>values. values ! 0) ` set (rows9 (tl (csvLines csvData)))
       \<and> distinct (map fst (comments (data (snd (importCSV csvData s)))))
       \<and> mset (allComments (data (snd (importCSV csvData s))))
           = mset (map commentOfValues (rows9 (tl (csvLines csvData))))
       \<and> length (allComments (data (snd (importCSV csvData s)))) \<le> length (tl (csvLines csvData))
       \<and> metadata_version (data (snd (importCSV csvData s))) = metadata_version (data s)
       \<and> cache (snd (importCSV csvData s)) = []"
proof -
  let ?ini = "(data s)\<lparr>comments := []\<rparr>"
  let ?lines = "tl (csvLines csvData)"
  obtain d' where i: "importRows ?lines ?ini = (Inr (), d')"
    using importRows_ok [OF p, of ?ini] by (cases "importRows ?lines ?ini") auto
  have s: "snd (importRows ?lines ?ini) = d'" by (simp add: i)
  have r: "fst (importCSV csvData s)"
    using assms(1) by (simp add: importCSV_def safeExecute_def Let_def case_prod_beta i)
  have d: "data (snd (importCSV csvData s)) = d'"
    using assms(1)
    by (simp add: importCSV_def safeExecute_def Let_def case_prod_beta saveToStorage_data i)
  have c: "console (snd (importCSV csvData s))
           = console s @ (if quotaExceeded s then [LogError ERROR_STORAGE QuotaExceededError] else [])"
    using assms(1)
    by (simp add: importCSV_def safeExecute_def Let_def case_prod_beta saveToStorage_def
        setItem_def i)
  have e: "cache (snd (importCSV csvData s)) = []"
    using assms(1) by (simp add: importCSV_def safeExecute_def Let_def case_prod_beta i)
  have z: "mset (allComments ?ini) = {#}" by (simp add: allComments_def)
  have m: "mset (allComments d') = mset (map commentOfValues (rows9 ?lines))"
    using importRows_all [OF p, of ?ini] z by (simp add: s)
  have "length (allComments d') = length (rows9 ?lines)"
    using m by (metis length_map size_mset)
  also have "\<dots> \<le> length ?lines"
    unfolding rows9_def by (metis length_filter_le length_map)
  finally have l: "length (allComments d') \<le> length ?lines" .
  have sc0: "sceneComments ?ini sc = []" for sc by (simp add: sceneComments_def)
  have k: "distinct (map fst (comments d'))"
    using importRows_distinct [of ?ini ?lines] by (simp add: s)
  have v: "metadata_version d' = metadata_version (data s)"
    using importRows_metadata [of ?lines ?ini] by (simp add: s)
  have f: "sceneComments d' sc
             = map commentOfValues (filter (\<lambda>values. values ! 0 = sc) (rows9 ?lines))" for sc
    using importRows_scene [OF p, of ?ini sc] by (simp add: s sc0)
  have g: "fst ` set (comments d') = (\<lambda>values. values ! 0) ` set (rows9 ?lines)"
    using importRows_keys [OF p, of ?ini] by (simp add: s)
  show ?thesis
    unfolding d using r c e m l k v f g by simp
qed

text \<open>
  At the text \<open>csvShort\<close>, whose second data line has three values, the call returns
  \<open>true\<close>, logs nothing and stores the one comment of the first data line.
\<close>

lemma importCSV_short_line_skipped:
  "csvLines csvShort =
     [''Szene,Kommentar,Position_X,Position_Y,Position_Z,Feature,Datum,ID,Benutzer'',
      ''Lock A,Leak at joint,10.5,20,5,,2023-11-14T22:13:20.000Z,7,Anna'',
      ''Lock A,only,three'']
   \<and> importCSV csvShort store0 =
       (True, store0\<lparr>data := \<lparr>comments =
                 [(''Lock A'',
                   [\<lparr>id_c = ''7'', text_c = ''Leak at joint'',
                     position_x = Fin (21 / 2), position_y = Fin 20, position_z = Fin 5,
                     featureName = None, timestamp = ''2023-11-14T22:13:20.000Z'',
                     user = ''Anna'', szene = ''Lock A''\<rparr>])],
               metadata_version = ''1.0''\<rparr>,
             localStorage := Some \<lparr>comments =
                 [(''Lock A'',
                   [\<lparr>id_c = ''7'', text_c = ''Leak at joint'',
                     position_x = Fin (21 / 2), position_y = Fin 20, position_z = Fin 5,
                     featureName = None, timestamp = ''2023-11-14T22:13:20.000Z'',
                     user = ''Anna'', szene = ''Lock A''\<rparr>])],
               metadata_version = ''1.0''\<rparr>,
             setItemCalls := 1\<rparr>)"
proof -
  have l: "csvLines csvShort =
     [''Szene,Kommentar,Position_X,Position_Y,Position_Z,Feature,Datum,ID,Benutzer'',
      ''Lock A,Leak at joint,10.5,20,5,,2023-11-14T22:13:20.000Z,7,Anna'',
      ''Lock A,only,three'']"
    by (simp add: csvLines_def csvShort_def trim_def isWhiteSpace_def)
  have p: "parseCSVLine ''Lock A,Leak at joint,10.5,20,5,,2023-11-14T22:13:20.000Z,7,Anna''
      = [''Lock A'', ''Leak at joint'', ''10.5'', ''20'', ''5'', [],
         ''2023-11-14T22:13:20.000Z'', ''7'', ''Anna'']"
    "parseCSVLine ''Lock A,only,three'' = [''Lock A'', ''only'', ''three'']"
    by (simp_all add: parseCSVLine_def)
  show ?thesis
    by (simp add: l p importCSV_def safeExecute_def saveToStorage_def setItem_def Let_def
        getScene_def objectPrototypeNames_def setScene_def commentOfValues_def orNull_def
        parseFloat_values store0_def getDefaultData_def)
qed

text \<open>
  C10 at a text whose third data line has the scene name \<open>toString\<close>, imported into the
  store that holds the comment \<open>leak\<close>. The text has the header and four data lines,
  three of them with nine values. \<open>importCSV\<close> of version 2.1.0 empties the document,
  stores the comment of the first line and skips the line of three values; on the
  third line \<open>this.data.comments['toString']\<close> is the inherited function, so no list
  is made and \<open>push\<close> throws. The call returns \<open>false\<close> and logs the \<open>TypeError\<close>; the
  document is left with the one comment of the first line, the comment of the fourth
  line is never read, and nothing is written to storage. Version 2.0.0 leaves the
  same document and throws the \<open>TypeError\<close> to its caller.
\<close>

theorem importCSV_inherited_scene_name:
  "csvLines csvInherited =
     [''Szene,Kommentar,Position_X,Position_Y,Position_Z,Feature,Datum,ID,Benutzer'',
      ''Lock A,Leak at joint,10.5,20,5,,2023-11-14T22:13:20.000Z,7,Anna'',
      ''Lock A,only,three'',
      ''toString,Rust,10.5,20,5,,2023-11-14T22:13:21.000Z,8,Ben'',
      ''Lock B,Crack,10.5,20,5,,2023-11-14T22:13:22.000Z,9,Cem'']
   \<and> comments (data store1) = [(''Lock A'', [leak])]
   \<and> importCSV csvInherited store1 =
       (False, store1\<lparr>console := [LogError ERROR_FILE_IMPORT TypeError],
                     data := \<lparr>comments =
                         [(''Lock A'',
                           [\<lparr>id_c = ''7'', text_c = ''Leak at joint'',
                             position_x = Fin (21 / 2), position_y = Fin 20, position_z = Fin 5,
                             featureName = None, timestamp = ''2023-11-14T22:13:20.000Z'',
                             user = ''Anna'', szene = ''Lock A''\<rparr>])],
                       metadata_version = ''1.0''\<rparr>\<rparr>)
   \<and> localStorage (snd (importCSV csvInherited store1)) = None
   \<and> setItemCalls (snd (importCSV csvInherited store1)) = 0
   \<and> importCSV_v20 csvInherited store1 =
       (Inl TypeError, store1\<lparr>data := \<lparr>comments =
                         [(''Lock A'',
                           [\<lparr>id_c = ''7'', text_c = ''Leak at joint'',
                             position_x = Fin (21 / 2), position_y = Fin 20, position_z = Fin 5,
                             featureName = None, timestamp = ''2023-11-14T22:13:20.000Z'',
                             user = ''Anna'', szene = ''Lock A''\<rparr>])],
                       metadata_version = ''1.0''\<rparr>\<rparr>)"
proof -
  have l: "csvLines csvInherited =
     [''Szene,Kommentar,Position_X,Position_Y,Position_Z,Feature,Datum,ID,Benutzer'',
      ''Lock A,Leak at joint,10.5,20,5,,2023-11-14T22:13:20.000Z,7,Anna'',
      ''Lock A,only,three'',
      ''toString,Rust,10.5,20,5,,2023-11-14T22:13:21.000Z,8,Ben'',
      ''Lock B,Crack,10.5,20,5,,2023-11-14T22:13:22.000Z,9,Cem'']"
    by (simp add: csvLines_def csvInherited_def trim_def isWhiteSpace_def)
  have p: "parseCSVLine ''Lock A,Leak at joint,10.5,20,5,,2023-11-14T22:13:20.000Z,7,Anna''
      = [''Lock A'', ''Leak at joint'', ''10.5'', ''20'', ''5'', [],
         ''2023-11-14T22:13:20.000Z'', ''7'', ''Anna'']"
    "parseCSVLine ''Lock A,only,three'' = [''Lock A'', ''only'', ''three'']"
    "parseCSVLine ''toString,Rust,10.5,20,5,,2023-11-14T22:13:21.000Z,8,Ben''
      = [''toString'', ''Rust'', ''10.5'', ''20'', ''5'', [],
         ''2023-11-14T22:13:21.000Z'', ''8'', ''Ben'']"
    by (simp_all add: parseCSVLine_def)
  have a: "importCSV csvInherited store1 =
       (False, store1\<lparr>console := [LogError ERROR_FILE_IMPORT TypeError],
                     data := \<lparr>comments =
                         [(''Lock A'',
                           [\<lparr>id_c = ''7'', text_c = ''Leak at joint'',
                             position_x = Fin (21 / 2), position_y = Fin 20, position_z = Fin 5,
                             featureName = None, timestamp = ''2023-11-14T22:13:20.000Z'',
                             user = ''Anna'', szene = ''Lock A''\<rparr>])],
                       metadata_version = ''1.0''\<rparr>\<rparr>)"
    by (simp add: l p importCSV_def safeExecute_def Let_def
        getScene_def objectPrototypeNames_def setScene_def commentOfValues_def orNull_def
        parseFloat_values store1_def store0_def getDefaultData_def)
  have b: "importCSV_v20 csvInherited store1 =
       (Inl TypeError, store1\<lparr>data := \<lparr>comments =
                         [(''Lock A'',
                           [\<lparr>id_c = ''7'', text_c = ''Leak at joint'',
                             position_x = Fin (21 / 2), position_y = Fin 20, position_z = Fin 5,
                             featureName = None, timestamp = ''2023-11-14T22:13:20.000Z'',
                             user = ''Anna'', szene = ''Lock A''\<rparr>])],
                       metadata_version = ''1.0''\<rparr>\<rparr>)"
    by (simp add: l p importCSV_v20_def Let_def
        getScene_def objectPrototypeNames_def setScene_def commentOfValues_def orNull_def
        parseFloat_values store1_def store0_def getDefaultData_def)
  have c: "comments (data store1) = [(''Lock A'', [leak])]"
    "localStorage store1 = None" "setItemCalls store1 = 0"
    by (simp_all add: store1_def store0_def)
  show ?thesis
    unfolding a b using l c by simp
qed

subsection \<open>Ids of comments\<close>

text \<open>
  The decimal numeral of a number determines it, so in version 2.0.0 a comment saved at
  a millisecond whose numeral is the id of no comment of the document leaves the ids
  of the document distinct.
\<close>

lemma digit_inj: "m < 10 \<Longrightarrow> n < 10 \<Longrightarrow> digit m = digit n \<Longrightarrow> m = n"
proof -
  assume "m < 10" "n < 10" "digit m = digit n"
  then have "of_char (digit m) = (of_char (digit n) :: nat)" by simp
  with \<open>m < 10\<close> \<open>n < 10\<close> show ?thesis by (simp add: digit_code)
qed

lemma toString_nat_inj: "toString_nat m = toString_nat n \<Longrightarrow> m = n"
proof (induction m arbitrary: n rule: toString_nat.induct)
  case (1 m)
  have em: "toString_nat m = (if m < 10 then [digit m]
              else toString_nat (m div 10) @ [digit (m mod 10)])"
    by (subst toString_nat.simps) simp
  have en: "toString_nat n = (if n < 10 then [digit n]
              else toString_nat (n div 10) @ [digit (n mod 10)])"
    by (subst toString_nat.simps) simp
  show ?case
  proof (cases "m < 10")
    case True
    show ?thesis
    proof (cases "n < 10")
      case n: True
      with True 1 em en show ?thesis by (simp add: digit_inj)
    next
      case n: False
      with True 1 em en toString_nat_nonempty [of "n div 10"] show ?thesis by simp
    qed
  next
    case False
    show ?thesis
    proof (cases "n < 10")
      case n: True
      with False 1 em en toString_nat_nonempty [of "m div 10"] show ?thesis by simp
    next
      case n: False
      with False 1(2) em en
      have a: "toString_nat (m div 10) = toString_nat (n div 10)"
        and b: "digit (m mod 10) = digit (n mod 10)" by simp_all
      from 1(1) [OF False a] have "m div 10 = n div 10" .
      moreover from b have "m mod 10 = n mod 10" by (simp add: digit_inj)
      ultimately show ?thesis by (metis div_mult_mod_eq)
    qed
  qed
qed

text \<open>
  \<open>saveComment\<close> of version 2.0.0 throws on a scene name that only \<open>Object.prototype\<close>
  has, with the store unchanged; on every other scene name it returns the record and
  appends the comment to the list of the scene.
\<close>

lemma saveComment_v20_inherited_scene:
  fixes s :: "(document, 'z) api_scheme"
  assumes "getScene (data s) sceneName = Inherited"
  shows "saveComment_v20 nowMs now sceneName commentText pos featName usr s = (Inl TypeError, s)"
  using assms by (simp add: saveComment_v20_def Let_def)

lemma saveComment_v20_result:
  fixes s :: "(document, 'z) api_scheme"
  assumes "getScene (data s) sceneName \<noteq> Inherited"
  shows "fst (saveComment_v20 nowMs now sceneName commentText pos featName usr s)
           = Inr \<lparr>base = \<lparr>id_c = toString_nat nowMs, text_c = commentText,
                        position_x = c3_x pos, position_y = c3_y pos, position_z = c3_z pos,
                        featureName = orNull featName, timestamp = now,
                        user = usr, szene = sceneName\<rparr>, position = pos\<rparr>"
    and "data (snd (saveComment_v20 nowMs now sceneName commentText pos featName usr s))
           = setScene sceneName (sceneComments (data s) sceneName @
               [\<lparr>id_c = toString_nat nowMs, text_c = commentText,
                 position_x = c3_x pos, position_y = c3_y pos, position_z = c3_z pos,
                 featureName = orNull featName, timestamp = now,
                 user = usr, szene = sceneName\<rparr>]) (data s)"
proof -
  have d: "data (snd (saveToStorage_v20 t)) = data t" for t :: "(document, 'z) api_scheme"
    by (simp add: saveToStorage_v20_def safeExecute_def setItem_def Let_def)
  have e: "getScene (data s) sceneName = Absent \<Longrightarrow> sceneComments (data s) sceneName = []"
    by (simp add: sceneComments_def getScene_def split: option.splits)
  have o: "getScene (data s) sceneName = Own cs \<Longrightarrow> sceneComments (data s) sceneName = cs" for cs
    by (simp add: sceneComments_def getScene_Own_iff)
  show "fst (saveComment_v20 nowMs now sceneName commentText pos featName usr s)
           = Inr \<lparr>base = \<lparr>id_c = toString_nat nowMs, text_c = commentText,
                        position_x = c3_x pos, position_y = c3_y pos, position_z = c3_z pos,
                        featureName = orNull featName, timestamp = now,
                        user = usr, szene = sceneName\<rparr>, position = pos\<rparr>"
    using assms
    by (cases "getScene (data s) sceneName")
       (simp_all add: saveComment_v20_def Let_def case_prod_beta)
  show "data (snd (saveComment_v20 nowMs now sceneName commentText pos featName usr s))
           = setScene sceneName (sceneComments (data s) sceneName @
               [\<lparr>id_c = toString_nat nowMs, text_c = commentText,
                 position_x = c3_x pos, position_y = c3_y pos, position_z = c3_z pos,
                 featureName = orNull featName, timestamp = now,
                 user = usr, szene = sceneName\<rparr>]) (data s)"
    using assms
    by (cases "getScene (data s) sceneName")
       (simp_all add: saveComment_v20_def Let_def case_prod_beta d e o setScene_twice)
qed

lemma saveComment_v20_fresh_millisecond:
  fixes s :: "(document, 'z) api_scheme"
  assumes "distinct (map id_c (allComments (data s)))"
    and "toString_nat nowMs \<notin> id_c ` set (allComments (data s))"
  shows "distinct (map id_c (allComments
           (data (snd (saveComment_v20 nowMs now sceneName commentText pos featName usr s)))))"
proof (cases "getScene (data s) sceneName = Inherited")
  case True
  with assms(1) show ?thesis by (simp add: saveComment_v20_inherited_scene)
next
  case False
  let ?r = "saveComment_v20 nowMs now sceneName commentText pos featName usr s"
  let ?c = "\<lparr>id_c = toString_nat nowMs, text_c = commentText,
             position_x = c3_x pos, position_y = c3_y pos, position_z = c3_z pos,
             featureName = orNull featName, timestamp = now,
             user = usr, szene = sceneName\<rparr>"
  have "mset (allComments (data (snd ?r))) = mset (allComments (data s)) + {#?c#}"
    unfolding saveComment_v20_result(2) [OF False] by (rule allComments_step)
  then have "image_mset id_c (mset (allComments (data (snd ?r))))
          = image_mset id_c (mset (allComments (data s)) + {#?c#})"
    by (simp only:)
  then have "mset (map id_c (allComments (data (snd ?r))))
          = mset (map id_c (allComments (data s) @ [?c]))"
    by simp
  moreover have "distinct (map id_c (allComments (data s) @ [?c]))"
    using assms by simp
  ultimately show ?thesis by (metis mset_eq_imp_distinct_iff)
qed

text \<open>
  C5 on version 2.0.0, where the id is \<open>Date.now().toString()\<close>: two comments saved in
  the same millisecond, in two scenes, have the same id.
\<close>

theorem saveComment_v20_same_millisecond:
  "map id_c (allComments (data (snd
     (saveComment_v20 1700000000000 ''2023-11-14T22:13:20.000Z'' ''Lock B'' ''Rust''
        (Cartesian3 (Fin 1) (Fin 2) (Fin 3)) None ''Ben''
        (snd (saveComment_v20 1700000000000 ''2023-11-14T22:13:20.000Z'' ''Lock A''
           ''Leak at joint'' (Cartesian3 (Fin 10) (Fin 20) (Fin 5)) None ''Anna'' store0))))))
   = [''1700000000000'', ''1700000000000'']"
  by (simp add: saveComment_v20_def safeExecute_def saveToStorage_v20_def
      setItem_def Let_def setScene_def getScene_def objectPrototypeNames_def orNull_def
      allComments_def toString_nat.simps digit_def store0_def getDefaultData_def)

subsection \<open>The CSV round trip\<close>

text \<open>
  \<open>_parseCSVLine\<close> toggles its flag at every quote and never appends one: no value it
  returns contains a quote, whatever the line.
\<close>

lemma parseLoop_no_quote:
  "\<forall>f\<in>set result. CHR 0x22 \<notin> set f \<Longrightarrow> CHR 0x22 \<notin> set current \<Longrightarrow>
   \<forall>f\<in>set (parseLoop line result current inQuotes). CHR 0x22 \<notin> set f"
proof (induction line arbitrary: result current inQuotes)
  case Nil
  then show ?case by simp
next
  case (Cons ch line)
  show ?case
  proof (cases "ch = CHR 0x22")
    case True
    with Cons.IH [OF Cons.prems] show ?thesis by simp
  next
    case False
    show ?thesis
    proof (cases "ch = CHR '','' \<and> \<not> inQuotes")
      case True
      have "\<forall>f\<in>set (result @ [current]). CHR 0x22 \<notin> set f"
        using Cons.prems by simp
      from Cons.IH [OF this, of "[]"] True \<open>ch \<noteq> CHR 0x22\<close> show ?thesis by simp
    next
      case c: False
      have "CHR 0x22 \<notin> set (current @ [ch])"
        using Cons.prems False by simp
      moreover have "parseLoop (ch # line) result current inQuotes
          = parseLoop line result (current @ [ch]) inQuotes"
        using c False by auto
      ultimately show ?thesis
        using Cons.IH [OF Cons.prems(1), of "current @ [ch]" inQuotes] by simp
    qed
  qed
qed

lemma parseCSVLine_no_quote: "\<forall>f\<in>set (parseCSVLine line). CHR 0x22 \<notin> set f"
  using parseLoop_no_quote [of "[]" "[]" line False] by (simp add: parseCSVLine_def)


lemma exportCSV_said:
  "fst (exportCSV (\<lambda>x. []) storeSaid) =
  ''Szene,Kommentar,Position_X,Position_Y,Position_Z,Feature,Datum,ID,Benutzer'' @ [CHR 0x0A] @
  [CHR 0x22] @ ''Lock A'' @ [CHR 0x22] @ '','' @
  [CHR 0x22] @ ''He said, '' @ [CHR 0x22, CHR 0x22] @ ''hi'' @ [CHR 0x22, CHR 0x22, CHR 0x22] @
  '',10.000000,20.000000,5.000000,'' @ [CHR 0x22, CHR 0x22] @ '','' @
  [CHR 0x22] @ ''2023-11-14T22:13:20.000Z'' @ [CHR 0x22] @ '','' @
  [CHR 0x22] @ ''1700000000000'' @ [CHR 0x22] @ '','' @ [CHR 0x22] @ ''Anna'' @ [CHR 0x22]"
  apply (simp add: exportCSV_def safeExecute_def csvRows_def entries_def csvRow_def headers_def
      quoted_def escapeCsvValue_def orEmpty_def toFixed6_def Let_def
      storeSaid_def store0_def said_def)
  apply (simp add: toString_nat.simps digit_def replicate_numeral)
  done

lemma importCSV_said:
  "allComments (data (snd (importCSV (fst (exportCSV (\<lambda>x. []) storeSaid)) storeSaid)))
       = [said\<lparr>text_c := ''He said, hi''\<rparr>]"
  apply (simp only: exportCSV_said)
  apply (simp add: importCSV_def safeExecute_def csvLines_def trim_def isWhiteSpace_def
      saveToStorage_def setItem_def Let_def parseCSVLine_def commentOfValues_def
      setScene_def getScene_def objectPrototypeNames_def orNull_def allComments_def
      parseFloat_values storeSaid_def store0_def said_def getDefaultData_def)
  done

text \<open>
  C2 at the comment of the claim. The export doubles the two quotes of the text; the
  import reads the exported line back with the comma kept and every quote dropped.
  The id and the position are those of the original; the text is not.
\<close>

theorem csv_round_trip_drops_quotes:
  "text_c said = ''He said, '' @ [CHR 0x22] @ ''hi'' @ [CHR 0x22]
   \<and> map text_c (allComments
         (data (snd (importCSV (fst (exportCSV (\<lambda>x. []) storeSaid)) storeSaid))))
       = [''He said, hi'']
   \<and> map id_c (allComments
         (data (snd (importCSV (fst (exportCSV (\<lambda>x. []) storeSaid)) storeSaid))))
       = [id_c said]
   \<and> ''He said, hi'' \<noteq> text_c said"
  by (simp add: importCSV_said) (simp add: said_def)

subsection \<open>importData\<close>

text \<open>
  The cases of \<open>importData\<close> of version 2.1.0: what a call that returns \<open>false\<close> leaves
  behind, the texts it refuses, and what it does with a text whose \<open>comments\<close> is an
  object.
\<close>

lemma importData_failure:
  fixes s :: "(jsval, 'z) api_scheme"
  assumes "\<not> fst (importData JSON_parse jsonData s)"
  shows "\<exists>e. snd (importData JSON_parse jsonData s)
               = s\<lparr>console := console s @ [LogError ERROR_FILE_IMPORT e]\<rparr>"
  using assms
  by (auto simp: importData_def importData_body_def safeExecute_def Let_def case_prod_beta
      split: option.splits sum.splits if_splits)

lemma importData_rejects:
  fixes s :: "(jsval, 'z) api_scheme"
  assumes "JSON_parse jsonData = None
           \<or> (\<exists>parsed. JSON_parse jsonData = Some parsed
                 \<and> (\<forall>c. commentsOf parsed = Inr (Some c) \<longrightarrow>
                        (\<forall>fs. c \<noteq> JObj fs) \<and> (\<forall>vs. c \<noteq> JArr vs)))"
  shows "\<not> fst (importData JSON_parse jsonData s)"
  using assms
  by (auto simp: importData_def importData_body_def safeExecute_def Let_def case_prod_beta
      truthy_def typeofObject_def
      split: option.splits sum.splits if_splits jsval.splits)

lemma importData_accepts:
  fixes s :: "(jsval, 'z) api_scheme"
  assumes "JSON_parse jsonData = Some (JObj props)" and "map_of props ''comments'' = Some (JObj fs)"
  shows "fst (importData JSON_parse jsonData s)
       \<and> data (snd (importData JSON_parse jsonData s)) = JObj props
       \<and> cache (snd (importData JSON_parse jsonData s)) = []
       \<and> setItemCalls (snd (importData JSON_parse jsonData s)) = setItemCalls s + 1
       \<and> localStorage (snd (importData JSON_parse jsonData s))
           = (if quotaExceeded s then localStorage s else Some (JObj props))"
  using assms
  by (simp add: importData_def importData_body_def safeExecute_def Let_def case_prod_beta
      truthy_def typeofObject_def commentsOf_def saveToStorage_def setItem_def)

text \<open>
  C4 at three texts, on the store \<open>jstore0\<close>. The method documents
  \<open>@throws {Error} If data structure is invalid\<close>, and \<open>importData\<close> of version 2.0.0
  throws. In version 2.1.0 the text \<open>{\<close>, which does not parse, and the text
  \<open>{"comments":5}\<close>, whose \<open>comments\<close> is a number, make the body throw, but the
  method's own \<open>safeExecute\<close> catches the error: the call returns \<open>false\<close> and raises
  nothing. The text \<open>{"comments":[]}\<close>, whose \<open>comments\<close> is an array and not a map,
  passes the test \<open>typeof parsed.comments !== 'object'\<close> in both versions and replaces
  the document.
\<close>

theorem importData_swallows_failure:
  "parseSample ''{'' = None
   \<and> fst (importData_body parseSample ''{'' jstore0) = Inl SyntaxError
   \<and> importData parseSample ''{'' jstore0
       = (False, jstore0\<lparr>console := [LogError ERROR_FILE_IMPORT SyntaxError]\<rparr>)
   \<and> fst (importData_v20 parseSample ''{'' jstore0) = Inl SyntaxError
   \<and> parseSample (''{'' @ [CHR 0x22] @ ''comments'' @ [CHR 0x22] @ '':5}'')
       = Some (JObj [(''comments'', JNum (Fin 5))])
   \<and> fst (importData_body parseSample
         (''{'' @ [CHR 0x22] @ ''comments'' @ [CHR 0x22] @ '':5}'') jstore0)
       = Inl (Error ERROR_INVALID_JSON)
   \<and> importData parseSample (''{'' @ [CHR 0x22] @ ''comments'' @ [CHR 0x22] @ '':5}'') jstore0
       = (False, jstore0\<lparr>console := [LogError ERROR_FILE_IMPORT (Error ERROR_INVALID_JSON)]\<rparr>)
   \<and> fst (importData_v20 parseSample
         (''{'' @ [CHR 0x22] @ ''comments'' @ [CHR 0x22] @ '':5}'') jstore0)
       = Inl (Error (Msg ''Invalid data structure''))
   \<and> parseSample (''{'' @ [CHR 0x22] @ ''comments'' @ [CHR 0x22] @ '':[]}'')
       = Some (JObj [(''comments'', JArr [])])
   \<and> fst (importData parseSample (''{'' @ [CHR 0x22] @ ''comments'' @ [CHR 0x22] @ '':[]}'') jstore0)
   \<and> data (snd (importData parseSample
         (''{'' @ [CHR 0x22] @ ''comments'' @ [CHR 0x22] @ '':[]}'') jstore0))
       = JObj [(''comments'', JArr [])]
   \<and> fst (importData_v20 parseSample
         (''{'' @ [CHR 0x22] @ ''comments'' @ [CHR 0x22] @ '':[]}'') jstore0) = Inr True
   \<and> data (snd (importData_v20 parseSample
         (''{'' @ [CHR 0x22] @ ''comments'' @ [CHR 0x22] @ '':[]}'') jstore0))
       = JObj [(''comments'', JArr [])]"
  by (simp add: importData_def importData_v20_def importData_body_def safeExecute_def Let_def
      truthy_def typeofObject_def commentsOf_def saveToStorage_def saveToStorage_v20_def
      setItem_def parseSample_def jstore0_def)

text \<open>
  The two values of \<open>comments\<close> at the test of \<open>importData\<close>: the number 5 is truthy and
  not of type \<open>object\<close>, the empty array is truthy and of type \<open>object\<close>.
\<close>

theorem importData_swallows_failure_witness:
  "truthy (Some (JNum (Fin 5))) \<and> \<not> typeofObject (Some (JNum (Fin 5)))
   \<and> truthy (Some (JArr [])) \<and> typeofObject (Some (JArr []))
   \<and> \<not> fst (importData parseSample
           (''{'' @ [CHR 0x22] @ ''comments'' @ [CHR 0x22] @ '':5}'') jstore0)
   \<and> fst (importData parseSample
         (''{'' @ [CHR 0x22] @ ''comments'' @ [CHR 0x22] @ '':[]}'') jstore0)"
  using importData_swallows_failure by (simp add: truthy_def typeofObject_def)

subsection \<open>The JSON round trip\<close>

lemma arrayLengths_arrays:
  "arrayLengths (map (\<lambda>(sceneName, cs). (sceneName, JArr (map f cs))) al)
     = Some (length (concat (map snd al)))"
  by (induction al) auto

lemma getStats_toJson:
  fixes s :: "(jsval, 'z) api_scheme"
  assumes "data s = toJson d"
  shows "getStats s = Some \<lparr>totalComments = length (allComments d), scenes = length (comments d),
                            scenesWithComments = map fst (comments d)\<rparr>"
proof -
  have "map fst (map (\<lambda>(sceneName, cs). (sceneName, JArr (map commentJson cs))) (comments d))
          = map fst (comments d)"
    by (induction "comments d") (auto simp: case_prod_beta)
  then show ?thesis
    using assms by (simp add: getStats_def toJson_def arrayLengths_arrays allComments_def)
qed

lemma jsonClean_toJson:
  "jsonClean (toJson d) =
     JObj [(''comments'', JObj (map (\<lambda>(sceneName, cs).
                                      (sceneName, JArr (map (\<lambda>c. jsonClean (commentJson c)) cs)))
                                 (comments d))),
           (''metadata'', JObj [(''version'', JStr (metadata_version d))])]"
  by (simp add: toJson_def case_prod_beta comp_def)

text \<open>
  C9. Let the store hold a document, let \<open>JSON.stringify\<close> give a text for it, and let
  \<open>JSON.parse\<close> read that text back as the same value with \<open>null\<close> in place of the
  numbers that are not finite, as the two functions do. Then \<open>exportJSON\<close> returns the
  text and leaves the store alone, \<open>importData\<close> of the text succeeds, and \<open>getStats\<close>
  after it gives what it gave before: the number of comments, the number of scenes and
  the list of scenes of the document.
\<close>

theorem json_round_trip_stats:
  fixes s :: "(jsval, 'z) api_scheme"
  assumes "data s = toJson d"
    and "JSON_stringify (data s) = Some jsonText"
    and "JSON_parse jsonText = Some (jsonClean (data s))"
  shows "exportJSON JSON_stringify s = (jsonText, s)
       \<and> fst (importData JSON_parse jsonText s)
       \<and> data (snd (importData JSON_parse jsonText s)) = jsonClean (data s)
       \<and> getStats (snd (importData JSON_parse jsonText s)) = getStats s
       \<and> getStats s = Some \<lparr>totalComments = length (allComments d), scenes = length (comments d),
                              scenesWithComments = map fst (comments d)\<rparr>"
proof -
  let ?s' = "snd (importData JSON_parse jsonText s)"
  have e: "exportJSON JSON_stringify s = (jsonText, s)"
    using assms(2) by (simp add: exportJSON_def safeExecute_def)
  have p: "JSON_parse jsonText = Some (jsonClean (toJson d))"
    using assms by simp
  have i: "fst (importData JSON_parse jsonText s) \<and> data ?s' = jsonClean (toJson d)"
    unfolding importData_def importData_body_def safeExecute_def p jsonClean_toJson
    by (simp add: Let_def case_prod_beta truthy_def typeofObject_def commentsOf_def
        saveToStorage_data)
  have m: "map fst (map (\<lambda>(sceneName, cs).
                 (sceneName, JArr (map (\<lambda>c. jsonClean (commentJson c)) cs))) (comments d))
          = map fst (comments d)"
    by (induction "comments d") (auto simp: case_prod_beta)
  have g: "getStats ?s' = Some \<lparr>totalComments = length (allComments d),
              scenes = length (comments d), scenesWithComments = map fst (comments d)\<rparr>"
    using i m by (simp add: getStats_def jsonClean_toJson arrayLengths_arrays allComments_def)
  show ?thesis
    using e i g getStats_toJson [OF assms(1)] assms(1) by simp
qed

theorem json_round_trip_stats_witness:
  "data jstoreNaN = toJson docNaN
   \<and> stringifySample (data jstoreNaN) = Some jsonNaN
   \<and> parseSample jsonNaN = Some (jsonClean (data jstoreNaN))
   \<and> exportJSON stringifySample jstoreNaN = (jsonNaN, jstoreNaN)
   \<and> fst (importData parseSample jsonNaN jstoreNaN)
   \<and> data (snd (importData parseSample jsonNaN jstoreNaN)) = parsedNaN
   \<and> getStats (snd (importData parseSample jsonNaN jstoreNaN))
       = Some \<lparr>totalComments = 1, scenes = 2, scenesWithComments = [''Lock A'', ''Lock B'']\<rparr>
   \<and> getStats jstoreNaN
       = Some \<lparr>totalComments = 1, scenes = 2, scenesWithComments = [''Lock A'', ''Lock B'']\<rparr>"
proof -
  have a: "data jstoreNaN = toJson docNaN" by (simp add: jstoreNaN_def)
  have b: "stringifySample (data jstoreNaN) = Some jsonNaN"
    by (simp add: a stringifySample_def)
  have n: "jsonClean (toJson docNaN) = parsedNaN"
    by (simp add: toJson_def docNaN_def commentJson_def leak_def parsedNaN_def)
  have p: "parseSample jsonNaN = Some parsedNaN"
    by (simp add: parseSample_def jsonNaN_def)
  have c: "parseSample jsonNaN = Some (jsonClean (data jstoreNaN))"
    by (simp add: a n p)
  have d: "length (allComments docNaN) = 1" "length (comments docNaN) = 2"
    "map fst (comments docNaN) = [''Lock A'', ''Lock B'']"
    by (simp_all add: docNaN_def allComments_def)
  from json_round_trip_stats [where s = jstoreNaN and d = docNaN
      and JSON_stringify = stringifySample and jsonText = jsonNaN and JSON_parse = parseSample,
      OF a b c]
  show ?thesis
    using a b c d n by simp
qed

end
